theory Spec2Isabelle
  imports Complex_Main "HOL-Library.AList"
begin

section \<open>Change predictor: risk level\<close>

text \<open>
  The merged impact analysis returned by \<open>mergeImpactAnalysis\<close> (change predictor).
  JavaScript numbers are modelled as reals. The ranked node and file lists carry the
  accumulated weight of each entry.
\<close>

record ranked_file =
  rf_path :: string
  rf_elements :: "string list"
  rf_weight :: real

record ranked_node =
  rn_id :: string
  rn_sources :: "string list"
  rn_weight :: real

record impact_analysis =
  impactedNodes :: "ranked_node list"
  dependencyNodes :: "ranked_node list"
  impactedFiles :: "ranked_file list"
  dependencyFiles :: "ranked_file list"
  totalImpactScore :: real
  totalDependencyScore :: real

datatype level = High | Medium | Low

definition calculateRiskLevel :: "impact_analysis \<Rightarrow> level" where
  "calculateRiskLevel ia =
     (if totalImpactScore ia > 50 \<or> length (impactedFiles ia) > 20 then High
      else if totalImpactScore ia > 20 \<or> length (impactedFiles ia) > 10 then Medium
      else Low)"

section \<open>Dependency graph\<close>

text \<open>
  Nodes of the dependency graph, tagged by their \<open>type\<close> field. A file node carries
  \<open>path\<close>; the other variants carry \<open>filePath\<close>. Source spans are line pairs.
\<close>

type_synonym loc = "nat \<times> nat"

record method_info =
  m_name :: "string option"
  m_params :: "string list"
  m_loc :: loc

datatype node =
    FileNode string string string nat "string option"
  | FunctionNode string string string "string list" loc
  | ClassNode string string string "method_info list" loc
  | MethodNode string "string option" string string "string list" loc

text \<open>
  An edge \<open>{source, target, type, metadata}\<close>. The metadata object is an association
  list from property names to numbers, in insertion order.
\<close>

record edge =
  source :: string
  target :: string
  etype :: string
  metadata :: "(string \<times> real) list"

record graph_metadata =
  createdAt :: "string option"
  nodeCount :: nat
  edgeCount :: nat

text \<open>
  The graph object: \<open>nodes\<close> is an object keyed by node id (an association list with
  one entry per key, assignment through \<open>AList.update\<close>), \<open>edges\<close> an array.
\<close>

record graph =
  nodes :: "(string \<times> node) list"
  edges :: "edge list"
  gmeta :: graph_metadata

definition emptyGraph :: graph where
  "emptyGraph = \<lparr>nodes = [], edges = [],
     gmeta = \<lparr>createdAt = None, nodeCount = 0, edgeCount = 0\<rparr>\<rparr>"

text \<open>
  A property read \<open>obj[key]\<close> on a plain object follows the prototype chain: a key
  the object does not own is still found when it names a member of \<open>Object.prototype\<close>.
  Those members are functions (\<open>__proto__\<close> is the prototype object), all of them truthy.
\<close>

datatype 'a slot = Own 'a | Inherited | Absent

definition objectPrototypeMembers :: "string list" where
  "objectPrototypeMembers =
     [''constructor'', ''hasOwnProperty'', ''isPrototypeOf'', ''propertyIsEnumerable'',
      ''toLocaleString'', ''toString'', ''valueOf'', ''__proto__'', ''__defineGetter__'',
      ''__defineSetter__'', ''__lookupGetter__'', ''__lookupSetter__'']"

definition getProp :: "(string \<times> 'a) list \<Rightarrow> string \<Rightarrow> 'a slot" where
  "getProp obj key =
     (case map_of obj key of
        Some v \<Rightarrow> Own v
      | None \<Rightarrow> if key \<in> set objectPrototypeMembers then Inherited else Absent)"

text \<open>
  The test \<open>nodes[id]\<close> of \<open>addEdge\<close> and of the traversal is truthy for a node and
  for an inherited member. \<open>isNode\<close> is membership in the node map proper.
\<close>

definition hasNode :: "graph \<Rightarrow> string \<Rightarrow> bool" where
  "hasNode g i = (getProp (nodes g) i \<noteq> Absent)"

definition isNode :: "graph \<Rightarrow> string \<Rightarrow> bool" where
  "isNode g i = (map_of (nodes g) i \<noteq> None)"

text \<open>\<open>Object.assign(target, src)\<close> on metadata objects and the spread \<open>{weight: 1, ...metadata}\<close>.\<close>

definition objectAssign :: "(string \<times> real) list \<Rightarrow> (string \<times> real) list \<Rightarrow> (string \<times> real) list" where
  "objectAssign tgt src = fold (\<lambda>(k, v) m. AList.update k v m) src tgt"

definition sameEdge :: "string \<Rightarrow> string \<Rightarrow> string \<Rightarrow> edge \<Rightarrow> bool" where
  "sameEdge s t ty e = (source e = s \<and> target e = t \<and> etype e = ty)"

text \<open>Mutation of the first array element that satisfies the predicate (the one \<open>find\<close> returns).\<close>

fun updateFirst :: "('a \<Rightarrow> bool) \<Rightarrow> ('a \<Rightarrow> 'a) \<Rightarrow> 'a list \<Rightarrow> 'a list" where
  "updateFirst P f [] = []"
| "updateFirst P f (x # xs) = (if P x then f x # xs else x # updateFirst P f xs)"

definition addEdge :: "string \<Rightarrow> string \<Rightarrow> string \<Rightarrow> (string \<times> real) list \<Rightarrow> graph \<Rightarrow> graph" where
  "addEdge sourceId targetId ty md g =
     (if \<not> hasNode g sourceId \<or> \<not> hasNode g targetId then g
      else case find (sameEdge sourceId targetId ty) (edges g) of
        Some existingEdge \<Rightarrow>
          g\<lparr>edges := updateFirst (sameEdge sourceId targetId ty)
                 (\<lambda>e. e\<lparr>metadata := objectAssign (metadata e) md\<rparr>) (edges g)\<rparr>
      | None \<Rightarrow>
          g\<lparr>edges := edges g @
                 [\<lparr>source = sourceId, target = targetId, etype = ty,
                   metadata = objectAssign [(''weight'', 1)] md\<rparr>]\<rparr>)"

text \<open>A sequence of \<open>addEdge\<close> calls, each given by its four arguments.\<close>

type_synonym edge_call = "string \<times> string \<times> string \<times> (string \<times> real) list"

fun addEdges :: "edge_call list \<Rightarrow> graph \<Rightarrow> graph" where
  "addEdges [] g = g"
| "addEdges ((s, t, ty, md) # cs) g = addEdges cs (addEdge s t ty md g)"

definition edgeKey :: "edge \<Rightarrow> string \<times> string \<times> string" where
  "edgeKey e = (source e, target e, etype e)"

text \<open>The two graph invariants: no dangling edge, and at most one edge per identity triple.\<close>

definition endpointsExist :: "graph \<Rightarrow> bool" where
  "endpointsExist g = list_all (\<lambda>e. isNode g (source e) \<and> isNode g (target e)) (edges g)"

definition edgesUnique :: "graph \<Rightarrow> bool" where
  "edgesUnique g = distinct (map edgeKey (edges g))"

subsection \<open>Bounded traversal\<close>

record options =
  direction :: string
  types :: "string list option"
  depth :: int
  maxResults :: int

definition defaults :: options where
  "defaults = \<lparr>direction = ''outgoing'', types = None, depth = 1, maxResults = 100\<rparr>"

text \<open>
  A traversal entry \<open>{id, node, edge, depth}\<close>; \<open>node\<close> is what \<open>nodes[id]\<close> returned,
  a node or an inherited member.
\<close>

record dependency =
  dep_id :: string
  dep_node :: "node slot"
  dep_edge :: edge
  dep_depth :: int

definition relatedEdges :: "graph \<Rightarrow> options \<Rightarrow> string \<Rightarrow> edge list" where
  "relatedEdges g opts nodeId =
     (let es = filter (\<lambda>e.
                 if direction opts = ''outgoing'' then source e = nodeId
                 else if direction opts = ''incoming'' then target e = nodeId
                 else source e = nodeId \<or> target e = nodeId) (edges g)
      in case types opts of
           Some ts \<Rightarrow> filter (\<lambda>e. etype e \<in> set ts) es
         | None \<Rightarrow> es)"

definition edgeTarget :: "options \<Rightarrow> edge \<Rightarrow> string" where
  "edgeTarget opts e = (if direction opts = ''incoming'' then source e else target e)"

text \<open>
  \<open>getDependenciesRecursive\<close> threads the \<open>visited\<close> set and the \<open>dependencies\<close> array.
  \<open>forEdges\<close> is its \<open>for\<close> loop over the filtered edges; the \<open>return\<close> inside the
  loop leaves the current invocation only.
\<close>

type_synonym tstate = "string list \<times> dependency list"

function getDependenciesRecursive :: "graph \<Rightarrow> options \<Rightarrow> string \<Rightarrow> int \<Rightarrow> tstate \<Rightarrow> tstate"
  and forEdges :: "graph \<Rightarrow> options \<Rightarrow> edge list \<Rightarrow> int \<Rightarrow> tstate \<Rightarrow> tstate" where
  "getDependenciesRecursive g opts nodeId currentDepth st =
     (if currentDepth \<ge> depth opts then st
      else forEdges g opts (relatedEdges g opts nodeId) currentDepth
             (List.insert nodeId (fst st), snd st))"
| "forEdges g opts [] currentDepth st = st"
| "forEdges g opts (e # es) currentDepth st =
     (let targetId = edgeTarget opts e in
      if targetId \<in> set (fst st) then forEdges g opts es currentDepth st
      else if getProp (nodes g) targetId = Absent then forEdges g opts es currentDepth st
      else
          (let deps = snd st @ [\<lparr>dep_id = targetId, dep_node = getProp (nodes g) targetId,
                                 dep_edge = e, dep_depth = currentDepth + 1\<rparr>] in
           if int (length deps) \<ge> maxResults opts then (fst st, deps)
           else forEdges g opts es currentDepth
                  (getDependenciesRecursive g opts targetId (currentDepth + 1) (fst st, deps))))"
  by pat_completeness auto
termination
  by (relation "measures
        [\<lambda>x. case x of
               Inl (g, opts, nodeId, d, st) \<Rightarrow> 2 * nat (depth opts - d)
             | Inr (g, opts, es, d, st) \<Rightarrow> 2 * nat (depth opts - (d + 1)) + 1,
         \<lambda>x. case x of
               Inl (g, opts, nodeId, d, st) \<Rightarrow> 0
             | Inr (g, opts, es, d, st) \<Rightarrow> length es]") auto

definition getNodeDependencies :: "graph \<Rightarrow> string \<Rightarrow> options \<Rightarrow> dependency list" where
  "getNodeDependencies g nodeId opts =
     (if \<not> hasNode g nodeId then []
      else snd (getDependenciesRecursive g opts nodeId 0 ([], [])))"


text \<open>Every collected entry lies within the depth bound.\<close>

definition depthOk :: "options \<Rightarrow> tstate \<Rightarrow> bool" where
  "depthOk opts st = list_all (\<lambda>d. dep_depth d \<le> depth opts) (snd st)"

subsection \<open>Example graphs\<close>

definition fileNode :: "string \<Rightarrow> string \<times> node" where
  "fileNode p = (''file:'' @ p, FileNode (''file:'' @ p) p p 0 None)"

definition importEdge :: "string \<Rightarrow> string \<Rightarrow> edge" where
  "importEdge a b = \<lparr>source = ''file:'' @ a, target = ''file:'' @ b, etype = ''imports'',
     metadata = [(''weight'', 1)]\<rparr>"

text \<open>Four files: \<open>a\<close> imports \<open>b\<close> and \<open>c\<close>, and both of these import \<open>d\<close>.\<close>

definition diamondGraph :: graph where
  "diamondGraph = \<lparr>nodes = [fileNode ''a'', fileNode ''b'', fileNode ''c'', fileNode ''d''],
     edges = [importEdge ''a'' ''b'', importEdge ''a'' ''c'',
              importEdge ''b'' ''d'', importEdge ''c'' ''d''],
     gmeta = \<lparr>createdAt = None, nodeCount = 4, edgeCount = 4\<rparr>\<rparr>"

definition twoNodeGraph :: graph where
  "twoNodeGraph = \<lparr>nodes = [fileNode ''a'', fileNode ''b''], edges = [],
     gmeta = \<lparr>createdAt = None, nodeCount = 2, edgeCount = 0\<rparr>\<rparr>"

text \<open>
  The call \<open>addEdge('file:a', 'constructor', 'imports')\<close> on that graph: the target
  is no node, but the name of a member every plain object inherits.
\<close>

definition inheritedTargetCall :: graph where
  "inheritedTargetCall = addEdge ''file:a'' ''constructor'' ''imports'' [] twoNodeGraph"

text \<open>Identifiers that name no inherited member: for them \<open>nodes[id]\<close> tests the node map.\<close>

definition ordinaryCalls :: "edge_call list \<Rightarrow> bool" where
  "ordinaryCalls cs =
     list_all (\<lambda>(s, t, ty, md). s \<notin> set objectPrototypeMembers \<and> t \<notin> set objectPrototypeMembers) cs"


section \<open>Vector utilities\<close>

text \<open>
  A term-weight vector \<open>{term: weight, ...}\<close> is an association list in key order. A
  JavaScript object holds each key once, so well-formed vectors have distinct keys. A
  vector that is \<open>null\<close> or \<open>undefined\<close> is \<open>None\<close>.

  Numbers are modelled as reals, and a result that is \<open>NaN\<close> as \<open>None\<close>. Rounding and
  overflow of the double arithmetic are not modelled: the facts proved below about these
  functions concern their guards and the order of their results, never the exact value
  of a quotient.
\<close>

type_synonym vector = "(string \<times> real) list"

definition wellFormed :: "vector \<Rightarrow> bool" where
  "wellFormed v = distinct (map fst v)"

text \<open>
  The loop \<open>for (term in vector1) if (vector2[term]) dotProduct += vector1[term] *
  vector2[term]\<close>. The read \<open>vector2[term]\<close> follows the prototype chain: for a term that
  names an inherited member it yields a function, the product is \<open>NaN\<close>, and the sum
  stays \<open>NaN\<close> from there on.
\<close>

definition dotProduct :: "vector \<Rightarrow> vector \<Rightarrow> real option" where
  "dotProduct vector1 vector2 =
     fold (\<lambda>(term, w1) acc.
             case getProp vector2 term of
               Own w2 \<Rightarrow> if w2 \<noteq> 0 then map_option (\<lambda>a. a + w1 * w2) acc else acc
             | Inherited \<Rightarrow> None
             | Absent \<Rightarrow> acc) vector1 (Some 0)"

text \<open>\<open>Math.sqrt(Object.values(v).reduce((sum, val) => sum + val * val, 0))\<close>.\<close>

definition magnitude :: "vector \<Rightarrow> real" where
  "magnitude v = sqrt (fold (\<lambda>(term, val) sum. sum + val * val) v 0)"

definition cosineDistance :: "vector option \<Rightarrow> vector option \<Rightarrow> real option" where
  "cosineDistance vector1 vector2 =
     (case (vector1, vector2) of
        (Some v1, Some v2) \<Rightarrow>
          if length v1 = 0 \<or> length v2 = 0 then Some 1
          else if magnitude v1 = 0 \<or> magnitude v2 = 0 then Some 1
          else map_option (\<lambda>dot. 1 - dot / (magnitude v1 * magnitude v2)) (dotProduct v1 v2)
      | _ \<Rightarrow> Some 1)"


section \<open>Code index\<close>

text \<open>
  The index built by the codebase indexer. A function or class found in a file is stored
  in the file's own lists, and once more in the global lists with \<open>filePath\<close> attached.
\<close>

record function_info =
  f_name :: string
  f_params :: "string list"
  f_loc :: loc
  f_code :: string

record function_entry = function_info +
  f_filePath :: string

record class_info =
  c_name :: string
  c_methods :: "method_info list"
  c_loc :: loc
  c_code :: string

record class_entry = class_info +
  c_filePath :: string

record file_entry =
  fe_path :: string
  fe_name :: string
  fe_extension :: string
  fe_size :: nat
  fe_lastModified :: "string option"
  fe_functions :: "function_info list"
  fe_classes :: "class_info list"

record index_metadata =
  indexedAt :: "string option"
  totalFiles :: nat
  totalFunctions :: nat
  totalClasses :: nat

record code_index =
  ci_files :: "file_entry list"
  ci_functions :: "function_entry list"
  ci_classes :: "class_entry list"
  ci_metadata :: index_metadata

definition emptyIndex :: code_index where
  "emptyIndex = \<lparr>ci_files = [], ci_functions = [], ci_classes = [],
     ci_metadata = \<lparr>indexedAt = None, totalFiles = 0, totalFunctions = 0, totalClasses = 0\<rparr>\<rparr>"

section \<open>File system, paths and syntax trees\<close>

text \<open>Exceptions raised by the engine or by the platform.\<close>

datatype js_error = TypeError string | Error string | SyntaxError | IOError

text \<open>
  Node's \<open>path\<close> module in its POSIX form, for paths without doubled separators and
  without a trailing separator (the only ones the engine builds).
\<close>

fun splitOn :: "char \<Rightarrow> string \<Rightarrow> string list" where
  "splitOn sep [] = [[]]"
| "splitOn sep (c # cs) =
     (if c = sep then [] # splitOn sep cs
      else (case splitOn sep cs of [] \<Rightarrow> [[c]] | w # ws \<Rightarrow> (c # w) # ws))"

fun joinWith :: "char \<Rightarrow> string list \<Rightarrow> string" where
  "joinWith sep [] = []"
| "joinWith sep [w] = w"
| "joinWith sep (w # ws) = w @ sep # joinWith sep ws"

definition startsWith :: "string \<Rightarrow> string \<Rightarrow> bool" where
  "startsWith s pre = (take (length pre) s = pre)"

definition isAbsolute :: "string \<Rightarrow> bool" where
  "isAbsolute p = startsWith p ''/''"

text \<open>
  Resolution of \<open>.\<close> and \<open>..\<close> segments; the accumulator holds the kept segments in
  reverse. Above the root \<open>..\<close> is dropped, above a relative start it is kept.
\<close>

fun normalizeSegments :: "bool \<Rightarrow> string list \<Rightarrow> string list \<Rightarrow> string list" where
  "normalizeSegments ab acc [] = rev acc"
| "normalizeSegments ab acc (seg # segs) =
     (if seg = [] \<or> seg = ''.'' then normalizeSegments ab acc segs
      else if seg = ''..'' then
        (case acc of
           [] \<Rightarrow> if ab then normalizeSegments ab [] segs
                 else normalizeSegments ab [''..''] segs
         | kept # below \<Rightarrow> if kept = ''..'' then normalizeSegments ab (seg # acc) segs
                           else normalizeSegments ab below segs)
      else normalizeSegments ab (seg # acc) segs)"

definition path_normalize :: "string \<Rightarrow> string" where
  "path_normalize p =
     (let segs = normalizeSegments (isAbsolute p) [] (splitOn CHR ''/'' p) in
      if isAbsolute p then CHR ''/'' # joinWith CHR ''/'' segs
      else if segs = [] then ''.'' else joinWith CHR ''/'' segs)"

definition path_join :: "string \<Rightarrow> string \<Rightarrow> string" where
  "path_join a b =
     (if a = [] \<and> b = [] then ''.''
      else if a = [] then path_normalize b
      else if b = [] then path_normalize a
      else path_normalize (a @ ''/'' @ b))"

text \<open>\<open>path.resolve(from, to)\<close> in the working directory \<open>cwd\<close> (an absolute path).\<close>

definition path_resolve :: "string \<Rightarrow> string \<Rightarrow> string \<Rightarrow> string" where
  "path_resolve cwd from to =
     (if isAbsolute to then path_normalize to
      else if isAbsolute from then path_normalize (from @ ''/'' @ to)
      else path_normalize (cwd @ ''/'' @ from @ ''/'' @ to))"

definition path_basename :: "string \<Rightarrow> string" where
  "path_basename p = last (splitOn CHR ''/'' p)"

definition path_dirname :: "string \<Rightarrow> string" where
  "path_dirname p =
     (let segs = splitOn CHR ''/'' p in
      if length segs \<le> 1 then ''.''
      else if butlast segs = [[]] then ''/''
      else joinWith CHR ''/'' (butlast segs))"

text \<open>
  \<open>path.extname\<close>: from the last dot of the base name, unless the base name has no dot,
  starts with its only dot, or is \<open>..\<close>.
\<close>

definition path_extname :: "string \<Rightarrow> string" where
  "path_extname p =
     (let base = path_basename p; parts = splitOn CHR ''.'' base in
      if length parts \<le> 1 \<or> base = ''..'' \<or> (length parts = 2 \<and> hd parts = []) then []
      else CHR ''.'' # last parts)"

text \<open>
  Syntax trees as the parser delivers them, reduced to the node kinds the engine
  inspects. A span is the line range and the character range of a node. An identifier
  that is absent, or a binding that is a pattern, is \<open>None\<close>.
\<close>

type_synonym span = "loc \<times> nat \<times> nat"

datatype ast =
    FunctionDeclaration "string option" "string option list" span "ast list"
  | FunctionExpression "ast list"
  | ArrowFunctionExpression "ast list"
  | VariableDeclarator "string option" "ast list"
  | ClassDeclaration "string option" span "ast list"
  | ClassMethod "string option" "string option list" span "ast list"
  | CallExpression ast "ast list"
  | ImportDeclaration string
  | StringLiteral string
  | Identifier string
  | OtherNode string "ast list"

text \<open>
  The traversal visits every node in depth-first pre-order. \<open>paths\<close> lists each node
  with its ancestors, nearest first.
\<close>

fun paths :: "ast list \<Rightarrow> ast \<Rightarrow> (ast \<times> ast list) list" where
  "paths anc (FunctionDeclaration i ps sp body) =
     (FunctionDeclaration i ps sp body, anc)
       # concat (map (paths (FunctionDeclaration i ps sp body # anc)) body)"
| "paths anc (FunctionExpression body) =
     (FunctionExpression body, anc) # concat (map (paths (FunctionExpression body # anc)) body)"
| "paths anc (ArrowFunctionExpression body) =
     (ArrowFunctionExpression body, anc)
       # concat (map (paths (ArrowFunctionExpression body # anc)) body)"
| "paths anc (VariableDeclarator i init) =
     (VariableDeclarator i init, anc) # concat (map (paths (VariableDeclarator i init # anc)) init)"
| "paths anc (ClassDeclaration i sp members) =
     (ClassDeclaration i sp members, anc)
       # concat (map (paths (ClassDeclaration i sp members # anc)) members)"
| "paths anc (ClassMethod k ps sp body) =
     (ClassMethod k ps sp body, anc) # concat (map (paths (ClassMethod k ps sp body # anc)) body)"
| "paths anc (CallExpression callee args) =
     (CallExpression callee args, anc)
       # paths (CallExpression callee args # anc) callee
       @ concat (map (paths (CallExpression callee args # anc)) args)"
| "paths anc (ImportDeclaration src) = [(ImportDeclaration src, anc)]"
| "paths anc (StringLiteral v) = [(StringLiteral v, anc)]"
| "paths anc (Identifier n) = [(Identifier n, anc)]"
| "paths anc (OtherNode k cs) =
     (OtherNode k cs, anc) # concat (map (paths (OtherNode k cs # anc)) cs)"

definition traversal :: "ast list \<Rightarrow> (ast \<times> ast list) list" where
  "traversal program = concat (map (paths []) program)"

text \<open>
  The world outside the engine: the file system (a read, a stat or a directory listing
  that fails is \<open>None\<close>), the parser (\<open>None\<close> for a syntax error), the working directory
  and the clock.
\<close>

datatype entry_kind = DirectoryEntry | FileEntry | OtherEntry

record dirent =
  d_name :: string
  d_kind :: entry_kind

record world =
  w_readFile :: "string \<Rightarrow> string option"
  w_stat :: "string \<Rightarrow> string option"
  w_readdir :: "string \<Rightarrow> dirent list option"
  w_parse :: "string \<Rightarrow> ast list option"
  w_cwd :: string
  w_now :: string

section \<open>Codebase indexer\<close>

record indexer_config =
  excludeDirs :: "string list"
  fileExtensions :: "string list"
  indexDepth :: nat

definition defaultIndexerConfig :: indexer_config where
  "defaultIndexerConfig = \<lparr>excludeDirs = [''node_modules'', ''.git'', ''dist'', ''build''],
     fileExtensions = [''.js'', ''.jsx'', ''.ts'', ''.tsx''], indexDepth = 3\<rparr>"

definition substring :: "string \<Rightarrow> nat \<Rightarrow> nat \<Rightarrow> string" where
  "substring s a b = take (max a b - min a b) (drop (min a b) s)"

definition paramNames :: "string option list \<Rightarrow> string list" where
  "paramNames ps = map (\<lambda>p. case p of Some n \<Rightarrow> if n = [] then ''unnamed'' else n
                                    | None \<Rightarrow> ''unnamed'') ps"

definition orAnonymous :: "string option \<Rightarrow> string" where
  "orAnonymous i = (case i of Some n \<Rightarrow> n | None \<Rightarrow> ''anonymous'')"

definition classMethods :: "ast list \<Rightarrow> method_info list" where
  "classMethods members =
     concat (map (\<lambda>member. case member of
                ClassMethod k ps sp body \<Rightarrow>
                  [\<lparr>m_name = k, m_params = paramNames ps, m_loc = fst sp\<rparr>]
              | _ \<Rightarrow> []) members)"

text \<open>The two visitors of \<open>parseCode\<close>, applied to one visited node.\<close>

definition indexNode :: "string \<Rightarrow> file_entry \<Rightarrow> ast \<Rightarrow> file_entry" where
  "indexNode code fileIndex n =
     (case n of
        FunctionDeclaration i ps sp body \<Rightarrow>
          fileIndex\<lparr>fe_functions := fe_functions fileIndex @
            [\<lparr>f_name = orAnonymous i, f_params = paramNames ps, f_loc = fst sp,
              f_code = substring code (fst (snd sp)) (snd (snd sp))\<rparr>]\<rparr>
      | ClassDeclaration i sp members \<Rightarrow>
          fileIndex\<lparr>fe_classes := fe_classes fileIndex @
            [\<lparr>c_name = orAnonymous i, c_methods = classMethods members, c_loc = fst sp,
              c_code = substring code (fst (snd sp)) (snd (snd sp))\<rparr>]\<rparr>
      | _ \<Rightarrow> fileIndex)"

definition parseCode :: "world \<Rightarrow> string \<Rightarrow> file_entry \<Rightarrow> file_entry" where
  "parseCode w code fileIndex =
     (case w_parse w code of
        None \<Rightarrow> fileIndex
      | Some program \<Rightarrow> fold (\<lambda>(n, anc) fi. indexNode code fi n) (traversal program) fileIndex)"

definition withFilePath :: "string \<Rightarrow> function_info \<Rightarrow> function_entry" where
  "withFilePath filePath f = function_info.extend f (function_entry.fields filePath)"

definition classWithFilePath :: "string \<Rightarrow> class_info \<Rightarrow> class_entry" where
  "classWithFilePath filePath c = class_info.extend c (class_entry.fields filePath)"

definition newFileIndex :: "string \<Rightarrow> string \<Rightarrow> file_entry" where
  "newFileIndex filePath content =
     \<lparr>fe_path = filePath, fe_name = path_basename filePath,
      fe_extension = path_extname filePath, fe_size = length content,
      fe_lastModified = None, fe_functions = [], fe_classes = []\<rparr>"

definition indexFile :: "world \<Rightarrow> string \<Rightarrow> code_index \<Rightarrow> code_index" where
  "indexFile w filePath idx =
     (case w_readFile w filePath of
        None \<Rightarrow> idx
      | Some content \<Rightarrow>
          (case w_stat w filePath of
             None \<Rightarrow> idx
           | Some mtime \<Rightarrow>
               (let fileIndex = parseCode w content
                      ((newFileIndex filePath content)\<lparr>fe_lastModified := Some mtime\<rparr>)
                in idx\<lparr>ci_files := ci_files idx @ [fileIndex],
                       ci_functions := ci_functions idx
                          @ map (withFilePath filePath) (fe_functions fileIndex),
                       ci_classes := ci_classes idx
                          @ map (classWithFilePath filePath) (fe_classes fileIndex)\<rparr>)))"

function scanDirectory :: "world \<Rightarrow> indexer_config \<Rightarrow> string \<Rightarrow> nat \<Rightarrow> code_index \<Rightarrow> code_index"
  and scanEntries ::
    "world \<Rightarrow> indexer_config \<Rightarrow> string \<Rightarrow> nat \<Rightarrow> dirent list \<Rightarrow> code_index \<Rightarrow> code_index" where
  "scanDirectory w cfg dirPath level idx =
     (if level > indexDepth cfg then idx
      else case w_readdir w dirPath of
             None \<Rightarrow> idx
           | Some entries \<Rightarrow> scanEntries w cfg dirPath level entries idx)"
| "scanEntries w cfg dirPath level [] idx = idx"
| "scanEntries w cfg dirPath level (entry # rest) idx =
     (let entryPath = path_join dirPath (d_name entry) in
      if d_kind entry = DirectoryEntry then
        (if d_name entry \<in> set (excludeDirs cfg) then scanEntries w cfg dirPath level rest idx
         else scanEntries w cfg dirPath level rest
                (scanDirectory w cfg entryPath (level + 1) idx))
      else if d_kind entry = FileEntry then
        (if path_extname (d_name entry) \<in> set (fileExtensions cfg)
         then scanEntries w cfg dirPath level rest (indexFile w entryPath idx)
         else scanEntries w cfg dirPath level rest idx)
      else scanEntries w cfg dirPath level rest idx)"
  by pat_completeness auto
termination
  by (relation "measures
        [\<lambda>x. case x of
               Inl (w, cfg, dirPath, d, idx) \<Rightarrow> 2 * (indexDepth cfg + 1 - d)
             | Inr (w, cfg, dirPath, d, es, idx) \<Rightarrow> 2 * (indexDepth cfg + 1 - (d + 1)) + 1,
         \<lambda>x. case x of
               Inl (w, cfg, dirPath, d, idx) \<Rightarrow> 0
             | Inr (w, cfg, dirPath, d, es, idx) \<Rightarrow> length es]") auto

definition updateMetadata :: "world \<Rightarrow> code_index \<Rightarrow> code_index" where
  "updateMetadata w idx =
     idx\<lparr>ci_metadata := \<lparr>indexedAt = Some (w_now w), totalFiles = length (ci_files idx),
            totalFunctions = length (ci_functions idx),
            totalClasses = length (ci_classes idx)\<rparr>\<rparr>"

definition indexCodebase :: "world \<Rightarrow> indexer_config \<Rightarrow> string \<Rightarrow> code_index" where
  "indexCodebase w cfg codebasePath = updateMetadata w (scanDirectory w cfg codebasePath 0 emptyIndex)"

text \<open>
  The directories the scan of \<open>rootDir\<close> enters, with the level at which it enters
  them: the root at level 0, and every directory entry that is not excluded, listed in
  a directory entered at a level within the depth limit, one level further down.
\<close>

inductive visitedDir :: "world \<Rightarrow> indexer_config \<Rightarrow> string \<Rightarrow> string \<Rightarrow> nat \<Rightarrow> bool"
  for w :: world and cfg :: indexer_config and rootDir :: string where
  atRoot: "visitedDir w cfg rootDir rootDir 0"
| below: "visitedDir w cfg rootDir dir level \<Longrightarrow> level \<le> indexDepth cfg \<Longrightarrow>
          w_readdir w dir = Some es \<Longrightarrow> entry \<in> set es \<Longrightarrow>
          d_kind entry = DirectoryEntry \<Longrightarrow> d_name entry \<notin> set (excludeDirs cfg) \<Longrightarrow>
          visitedDir w cfg rootDir (path_join dir (d_name entry)) (level + 1)"

text \<open>The entry of a file that was read and stated, as \<open>indexFile\<close> pushes it.\<close>

definition fileRecord :: "world \<Rightarrow> string \<Rightarrow> string \<Rightarrow> string \<Rightarrow> file_entry" where
  "fileRecord w filePath content mtime =
     parseCode w content ((newFileIndex filePath content)\<lparr>fe_lastModified := Some mtime\<rparr>)"

text \<open>
  An entry that is either already in the index \<open>idx\<close> or names a file that can be
  read: the only entries a scan that starts from \<open>idx\<close> can hold.
\<close>

definition readable :: "world \<Rightarrow> code_index \<Rightarrow> file_entry \<Rightarrow> bool" where
  "readable w idx fe = (fe \<in> set (ci_files idx) \<or> w_readFile w (fe_path fe) \<noteq> None)"

section \<open>Dependency analyzer: building the graph\<close>

record analyzer_options =
  maxDepth :: int
  includeNodeModules :: bool

definition defaultAnalyzerOptions :: analyzer_options where
  "defaultAnalyzerOptions = \<lparr>maxDepth = 3, includeNodeModules = False\<rparr>"

text \<open>A value inside a template literal; \<open>undefined\<close> prints as the word.\<close>

definition tmpl :: "string option \<Rightarrow> string" where
  "tmpl v = (case v of Some x \<Rightarrow> x | None \<Rightarrow> ''undefined'')"

definition setNode :: "string \<Rightarrow> node \<Rightarrow> graph \<Rightarrow> graph" where
  "setNode nodeId n g = g\<lparr>nodes := AList.update nodeId n (nodes g)\<rparr>"

definition addFilesToGraph :: "file_entry list \<Rightarrow> graph \<Rightarrow> graph" where
  "addFilesToGraph files g =
     fold (\<lambda>file g.
        let nodeId = ''file:'' @ fe_path file
        in setNode nodeId
             (FileNode nodeId (fe_name file) (fe_path file) (fe_size file) (fe_lastModified file)) g)
       files g"

definition addFunctionsToGraph :: "function_entry list \<Rightarrow> graph \<Rightarrow> graph" where
  "addFunctionsToGraph functions g =
     fold (\<lambda>func g.
        let nodeId = ''function:'' @ f_filePath func @ '':'' @ f_name func
        in addEdge nodeId (''file:'' @ f_filePath func) ''contains'' []
             (setNode nodeId
                (FunctionNode nodeId (f_name func) (f_filePath func) (f_params func) (f_loc func)) g))
       functions g"

definition addClassesToGraph :: "class_entry list \<Rightarrow> graph \<Rightarrow> graph" where
  "addClassesToGraph classes g =
     fold (\<lambda>cls g.
        let nodeId = ''class:'' @ c_filePath cls @ '':'' @ c_name cls;
            g1 = addEdge nodeId (''file:'' @ c_filePath cls) ''contains'' []
                   (setNode nodeId
                      (ClassNode nodeId (c_name cls) (c_filePath cls) (c_methods cls) (c_loc cls)) g)
        in fold (\<lambda>method g.
              let methodNodeId = ''method:'' @ c_filePath cls @ '':'' @ c_name cls @ ''.''
                                   @ tmpl (m_name method)
              in addEdge methodNodeId nodeId ''memberOf'' []
                   (setNode methodNodeId
                      (MethodNode methodNodeId (m_name method) (c_name cls) (c_filePath cls)
                         (m_params method) (m_loc method)) g))
             (c_methods cls) g1)
       classes g"

text \<open>
  The analyzer module binds \<open>fs\<close> to the promise interface of the file-system module.
  That interface has no member \<open>existsSync\<close>, so the call \<open>fs.existsSync(p)\<close> raises a
  type error whatever the disk holds. \<open>disk_existsSync\<close> is the synchronous test the
  probe loops are written for.
\<close>

definition promises_existsSync :: "world \<Rightarrow> string \<Rightarrow> js_error + bool" where
  "promises_existsSync w p = Inl (TypeError ''fs.existsSync is not a function'')"

definition disk_existsSync :: "world \<Rightarrow> string \<Rightarrow> js_error + bool" where
  "disk_existsSync w p = Inr (w_stat w p \<noteq> None)"

text \<open>
  One probe loop: the first candidate reported to exist is returned; an exception of the
  test is swallowed by the inner \<open>try\<close> and the loop goes to the next candidate.
\<close>

fun probe :: "(string \<Rightarrow> js_error + bool) \<Rightarrow> string list \<Rightarrow> string option" where
  "probe existsSync [] = None"
| "probe existsSync (candidate # rest) =
     (case existsSync candidate of
        Inr True \<Rightarrow> Some candidate
      | Inr False \<Rightarrow> probe existsSync rest
      | Inl e \<Rightarrow> probe existsSync rest)"

definition probedExtensions :: "string list" where
  "probedExtensions = [''.js'', ''.jsx'', ''.ts'', ''.tsx'']"

definition resolveImportPathWith ::
  "(string \<Rightarrow> js_error + bool) \<Rightarrow> analyzer_options \<Rightarrow> string \<Rightarrow> string \<Rightarrow> string \<Rightarrow> string option" where
  "resolveImportPathWith existsSync cfg cwd importPath currentFilePath =
     (if \<not> includeNodeModules cfg \<and>
         (startsWith importPath ''node_modules/'' \<or>
          \<not> startsWith importPath ''.'' \<and> \<not> startsWith importPath ''/'')
      then None
      else if \<not> startsWith importPath ''.'' \<and> \<not> startsWith importPath ''/'' then None
      else
        (let resolvedPath =
               (if startsWith importPath ''.''
                then path_resolve cwd (path_dirname currentFilePath) importPath
                else importPath)
         in if path_extname resolvedPath = []
            then (case probe existsSync (map (\<lambda>ext. resolvedPath @ ext) probedExtensions) of
                    Some pathWithExt \<Rightarrow> Some pathWithExt
                  | None \<Rightarrow>
                      (case probe existsSync
                              (map (\<lambda>ext. path_join resolvedPath (''index'' @ ext))
                                 probedExtensions) of
                         Some indexPath \<Rightarrow> Some indexPath
                       | None \<Rightarrow> Some resolvedPath))
            else Some resolvedPath))"

definition resolveImportPath :: "world \<Rightarrow> analyzer_options \<Rightarrow> string \<Rightarrow> string \<Rightarrow> string option" where
  "resolveImportPath w cfg importPath currentFilePath =
     resolveImportPathWith (promises_existsSync w) cfg (w_cwd w) importPath currentFilePath"

text \<open>The import and require visitors, applied to one visited node of the file at \<open>filePath\<close>.\<close>

definition linkResolved :: "string \<Rightarrow> string option \<Rightarrow> string \<Rightarrow> graph \<Rightarrow> graph" where
  "linkResolved filePath resolved ty g =
     (case resolved of
        Some resolvedPath \<Rightarrow>
          if resolvedPath = [] then g
          else addEdge (''file:'' @ filePath) (''file:'' @ resolvedPath) ty [] g
      | None \<Rightarrow> g)"

definition visitDependency ::
  "(string \<Rightarrow> string \<Rightarrow> string option) \<Rightarrow> string \<Rightarrow> ast \<Rightarrow> graph \<Rightarrow> graph" where
  "visitDependency resolve filePath n g =
     (case n of
        ImportDeclaration importPath \<Rightarrow>
          linkResolved filePath (resolve importPath filePath) ''imports'' g
      | CallExpression (Identifier callee) (StringLiteral importPath # moreArgs) \<Rightarrow>
          if callee = ''require''
          then linkResolved filePath (resolve importPath filePath) ''requires'' g
          else g
      | _ \<Rightarrow> g)"

definition analyzeFileDependenciesWith ::
  "(string \<Rightarrow> string \<Rightarrow> string option) \<Rightarrow> world \<Rightarrow> file_entry list \<Rightarrow> graph \<Rightarrow> graph" where
  "analyzeFileDependenciesWith resolve w files g =
     fold (\<lambda>file g.
        case w_readFile w (fe_path file) of
          None \<Rightarrow> g
        | Some content \<Rightarrow>
            (case w_parse w content of
               None \<Rightarrow> g
             | Some program \<Rightarrow>
                 fold (\<lambda>(n, anc) g. visitDependency resolve (fe_path file) n g)
                   (traversal program) g))
       files g"

definition analyzeFileDependencies ::
  "world \<Rightarrow> analyzer_options \<Rightarrow> file_entry list \<Rightarrow> graph \<Rightarrow> graph" where
  "analyzeFileDependencies w cfg files g =
     analyzeFileDependenciesWith (resolveImportPath w cfg) w files g"

text \<open>
  The walk up the ancestors of a call site. At a function declaration it yields the
  declared name. At a function or arrow expression the code reads
  \<open>parent.parent.node.type\<close>; \<open>parent.parent\<close> is the parent syntax node, which has no
  \<open>node\<close> property, so the read raises a type error. \<open>None\<close> means no enclosing function.
\<close>

fun enclosingFunctionName :: "ast list \<Rightarrow> js_error + string option" where
  "enclosingFunctionName [] = Inr None"
| "enclosingFunctionName (FunctionDeclaration i ps sp body # up) = Inr (Some (orAnonymous i))"
| "enclosingFunctionName (FunctionExpression body # up) =
     Inl (TypeError ''Cannot read properties of undefined (reading type)'')"
| "enclosingFunctionName (ArrowFunctionExpression body # up) =
     Inl (TypeError ''Cannot read properties of undefined (reading type)'')"
| "enclosingFunctionName (other # up) = enclosingFunctionName up"

definition visitCall ::
  "(string \<times> string) list \<Rightarrow> string \<Rightarrow> ast \<times> ast list \<Rightarrow> graph \<Rightarrow> js_error + graph" where
  "visitCall functionMap filePath visited g =
     (case fst visited of
        CallExpression (Identifier calleeName) args \<Rightarrow>
          (case getProp functionMap calleeName of
             Absent \<Rightarrow> Inr g
           | Own calleeId \<Rightarrow>
               if calleeId = [] then Inr g
               else
               (case enclosingFunctionName (snd visited) of
                  Inl e \<Rightarrow> Inl e
                | Inr None \<Rightarrow> Inr g
                | Inr (Some currentFunctionName) \<Rightarrow>
                    if currentFunctionName \<noteq> [] \<and> currentFunctionName \<noteq> ''anonymous''
                    then Inr (addEdge (''function:'' @ filePath @ '':'' @ currentFunctionName)
                                calleeId ''calls'' [(''weight'', 1)] g)
                    else Inr g)
           | Inherited \<Rightarrow>
               (case enclosingFunctionName (snd visited) of
                  Inl e \<Rightarrow> Inl e
                | Inr enclosing \<Rightarrow> Inr g))
      | _ \<Rightarrow> Inr g)"

text \<open>
  In \<open>visitCall\<close> the test \<open>functionMap[calleeName]\<close> is also truthy for a callee that
  names an inherited member. The ancestors are then walked as for a known function, which
  may raise; if a caller is found, \<open>addEdge\<close> receives the inherited member as target,
  which is no key of the node map, and adds nothing.
\<close>

text \<open>
  A traversal whose visitor may raise: the exception ends the traversal of the file and
  is caught by the caller, and the edges added so far stay in the graph.
\<close>

fun visitUntilError :: "('a \<Rightarrow> graph \<Rightarrow> js_error + graph) \<Rightarrow> 'a list \<Rightarrow> graph \<Rightarrow> graph" where
  "visitUntilError f [] g = g"
| "visitUntilError f (x # xs) g =
     (case f x g of Inl e \<Rightarrow> g | Inr g' \<Rightarrow> visitUntilError f xs g')"

text \<open>
  \<open>functionMap[func.name] = id\<close> on a plain object. Assigning a string under the name
  \<open>__proto__\<close> creates no property.
\<close>

definition buildFunctionMap :: "function_entry list \<Rightarrow> (string \<times> string) list" where
  "buildFunctionMap functions =
     fold (\<lambda>func m. if f_name func = ''__proto__'' then m
                     else AList.update (f_name func)
                            (''function:'' @ f_filePath func @ '':'' @ f_name func) m) functions []"

definition analyzeFunctionCalls ::
  "world \<Rightarrow> function_entry list \<Rightarrow> file_entry list \<Rightarrow> graph \<Rightarrow> graph" where
  "analyzeFunctionCalls w functions files g =
     (let functionMap = buildFunctionMap functions in
      fold (\<lambda>file g.
         case w_readFile w (fe_path file) of
           None \<Rightarrow> g
         | Some content \<Rightarrow>
             (case w_parse w content of
                None \<Rightarrow> g
              | Some program \<Rightarrow>
                  visitUntilError (visitCall functionMap (fe_path file)) (traversal program) g))
        files g)"

definition updateGraphMetadata :: "world \<Rightarrow> graph \<Rightarrow> graph" where
  "updateGraphMetadata w g =
     g\<lparr>gmeta := \<lparr>createdAt = Some (w_now w), nodeCount = length (nodes g),
                  edgeCount = length (edges g)\<rparr>\<rparr>"

definition buildDependencyGraph :: "world \<Rightarrow> analyzer_options \<Rightarrow> code_index \<Rightarrow> graph" where
  "buildDependencyGraph w cfg codeIndex =
     updateGraphMetadata w
       (analyzeFunctionCalls w (ci_functions codeIndex) (ci_files codeIndex)
          (analyzeFileDependencies w cfg (ci_files codeIndex)
             (addClassesToGraph (ci_classes codeIndex)
                (addFunctionsToGraph (ci_functions codeIndex)
                   (addFilesToGraph (ci_files codeIndex) emptyGraph)))))"

subsection \<open>Example project\<close>

text \<open>
  Four source files under \<open>/proj\<close> with their syntax trees. \<open>a.js\<close> requires \<open>./b\<close> and
  declares \<open>foo\<close>, which calls \<open>bar\<close>; \<open>b.js\<close> declares \<open>bar\<close>; \<open>c.js\<close> imports from
  \<open>./b\<close> and \<open>d.js\<close> from \<open>./b.js\<close>; \<open>broken.js\<close> does not parse.
\<close>

definition quote :: string where
  "quote = [CHR 0x27]"

definition source_a :: string where
  "source_a = ''const {bar} = require('' @ quote @ ''./b'' @ quote @ '');''
              @ [CHR 0x0A] @ ''function foo(){ bar(); }''"

definition source_b :: string where
  "source_b = ''function bar(){}''"

definition source_c :: string where
  "source_c = ''import { bar } from '' @ quote @ ''./b'' @ quote @ '';''"

definition source_d :: string where
  "source_d = ''import { bar } from '' @ quote @ ''./b.js'' @ quote @ '';''"

definition source_broken :: string where
  "source_broken = ''function ( {''"

definition tree_a :: "ast list" where
  "tree_a =
     [OtherNode ''VariableDeclaration''
        [VariableDeclarator None
           [CallExpression (Identifier ''require'') [StringLiteral ''./b'']]],
      FunctionDeclaration (Some ''foo'') [] ((2, 2), 30, 54)
        [OtherNode ''BlockStatement''
           [OtherNode ''ExpressionStatement'' [CallExpression (Identifier ''bar'') []]]]]"

definition tree_b :: "ast list" where
  "tree_b = [FunctionDeclaration (Some ''bar'') [] ((1, 1), 0, 16) [OtherNode ''BlockStatement'' []]]"

definition exampleParse :: "string \<Rightarrow> ast list option" where
  "exampleParse code =
     (if code = source_a then Some tree_a
      else if code = source_b then Some tree_b
      else if code = source_c then Some [ImportDeclaration ''./b'']
      else if code = source_d then Some [ImportDeclaration ''./b.js'']
      else None)"

definition exampleSources :: "(string \<times> string) list" where
  "exampleSources = [(''a.js'', source_a), (''b.js'', source_b), (''c.js'', source_c),
                     (''d.js'', source_d), (''broken.js'', source_broken)]"

text \<open>The project directory holding the named files, all readable; \<open>locked.js\<close> cannot be read.\<close>

definition projectWorld :: "string list \<Rightarrow> world" where
  "projectWorld names =
     \<lparr>w_readFile = (\<lambda>p. if startsWith p ''/proj/'' \<and> drop 6 p \<in> set names
                          then map_of exampleSources (drop 6 p) else None),
      w_stat = (\<lambda>p. if startsWith p ''/proj/'' \<and> drop 6 p \<in> set names
                      then Some ''2024-01-01T00:00:00.000Z'' else None),
      w_readdir = (\<lambda>p. if p = ''/proj''
                         then Some (map (\<lambda>n. \<lparr>d_name = n, d_kind = FileEntry\<rparr>) names)
                         else None),
      w_parse = exampleParse,
      w_cwd = ''/'',
      w_now = ''2024-01-02T00:00:00.000Z''\<rparr>"

definition fileEntry :: "string \<Rightarrow> dirent" where
  "fileEntry n = \<lparr>d_name = n, d_kind = FileEntry\<rparr>"

definition faultyWorld :: world where
  "faultyWorld = projectWorld [''a.js'', ''broken.js'', ''locked.js'', ''b.js'']"

text \<open>
  A project with a subdirectory: \<open>/proj\<close> holds \<open>a.js\<close> and \<open>sub\<close>, and \<open>/proj/sub\<close>
  holds \<open>locked.js\<close> (unreadable), \<open>broken.js\<close> (does not parse) and \<open>b.js\<close>.
\<close>

definition nestedWorld :: world where
  "nestedWorld =
     \<lparr>w_readFile = (\<lambda>p. if p = ''/proj/a.js'' then Some source_a
                          else if p = ''/proj/sub/broken.js'' then Some source_broken
                          else if p = ''/proj/sub/b.js'' then Some source_b
                          else None),
      w_stat = (\<lambda>p. if p \<in> set [''/proj/a.js'', ''/proj/sub/locked.js'',
                                    ''/proj/sub/broken.js'', ''/proj/sub/b.js'']
                      then Some ''2024-01-01T00:00:00.000Z'' else None),
      w_readdir = (\<lambda>p. if p = ''/proj''
                         then Some [fileEntry ''a.js'', \<lparr>d_name = ''sub'', d_kind = DirectoryEntry\<rparr>]
                         else if p = ''/proj/sub''
                         then Some [fileEntry ''locked.js'', fileEntry ''broken.js'',
                                    fileEntry ''b.js'']
                         else None),
      w_parse = exampleParse,
      w_cwd = ''/'',
      w_now = ''2024-01-02T00:00:00.000Z''\<rparr>"

definition edgeTriples :: "graph \<Rightarrow> (string \<times> string \<times> string) list" where
  "edgeTriples g = map (\<lambda>e. (source e, etype e, target e)) (edges g)"

definition builtGraph :: "string list \<Rightarrow> graph" where
  "builtGraph names =
     buildDependencyGraph (projectWorld names) defaultAnalyzerOptions
       (indexCodebase (projectWorld names) defaultIndexerConfig ''/proj'')"

section \<open>Semantic analyzer\<close>

text \<open>
  The language library used by the analyzer is outside the repository; its operations are
  parameters of the model. A document of the term-frequency model is its key together
  with the term counts. \<open>tfidf\<close> may raise, the other operations are total.
\<close>

type_synonym document = "string \<times> (string \<times> nat) list"

record natural =
  tokenize :: "string \<Rightarrow> string list"
  stem :: "string \<Rightarrow> string"
  buildDocument :: "string list \<Rightarrow> string \<Rightarrow> document"
  idf :: "document list \<Rightarrow> string \<Rightarrow> real"
  tfidf :: "document list \<Rightarrow> string \<Rightarrow> string \<Rightarrow> js_error + real"
  listTerms :: "document list \<Rightarrow> int \<Rightarrow> (string \<times> real) list"

record analyzer_config =
  minTokenLength :: nat
  stopWords :: "string list"
  similarityThreshold :: real

text \<open>
  One entry of the semantic index. File entries carry \<open>path\<close>; function and class entries
  carry \<open>name\<close> and \<open>filePath\<close>. A field the object does not have is \<open>None\<close>.
\<close>

record sem_item =
  si_path :: "string option"
  si_name :: "string option"
  si_filePath :: "string option"
  si_tokens :: "string list"
  si_vector :: "vector option"
  si_keywords :: "(string \<times> real) list"
  si_params :: "string list option"
  si_methods :: "string list option"

record semantic_index =
  sem_files :: "(string \<times> sem_item) list"
  sem_functions :: "(string \<times> sem_item) list"
  sem_classes :: "(string \<times> sem_item) list"

record semantic_analyzer =
  sa_config :: analyzer_config
  sa_documents :: "document list"
  semanticIndex :: semantic_index

definition isLower :: "char \<Rightarrow> bool" where
  "isLower c = (97 \<le> (of_char c :: nat) \<and> (of_char c :: nat) \<le> 122)"

definition isUpper :: "char \<Rightarrow> bool" where
  "isUpper c = (65 \<le> (of_char c :: nat) \<and> (of_char c :: nat) \<le> 90)"

definition toLowerCase :: "string \<Rightarrow> string" where
  "toLowerCase = map (\<lambda>c. if isUpper c then char_of ((of_char c :: nat) + 32) else c)"

text \<open>\<open>text.replace(/([a-z])([A-Z])/g, '$1 $2')\<close>\<close>

fun splitCamelCase :: "string \<Rightarrow> string" where
  "splitCamelCase (x # y # r) =
     (if isLower x \<and> isUpper y then x # CHR '' '' # y # splitCamelCase r
      else x # splitCamelCase (y # r))"
| "splitCamelCase r = r"

definition tokenizeAndStem :: "natural \<Rightarrow> analyzer_config \<Rightarrow> string \<Rightarrow> string list" where
  "tokenizeAndStem nl cfg text =
     (let spacedText = splitCamelCase text;
          tokens = tokenize nl (toLowerCase spacedText);
          filteredTokens = filter (\<lambda>token. length token \<ge> minTokenLength cfg
                                            \<and> token \<notin> set (stopWords cfg)) tokens
      in map (stem nl) filteredTokens)"

definition calculateSimilarity :: "vector option \<Rightarrow> vector option \<Rightarrow> real option" where
  "calculateSimilarity vector1 vector2 = map_option (\<lambda>distance. 1 - distance) (cosineDistance vector1 vector2)"

text \<open>
  Options of \<open>findSimilarElements\<close>; an absent property takes the default
  (\<open>{...defaults, ...options}\<close>).
\<close>

record search_options =
  so_limit :: "nat option"
  so_types :: "string list option"
  so_threshold :: "real option"

definition noOptions :: search_options where
  "noOptions = \<lparr>so_limit = None, so_types = None, so_threshold = None\<rparr>"

definition effectiveLimit :: "search_options \<Rightarrow> nat" where
  "effectiveLimit opts = (case so_limit opts of Some l \<Rightarrow> l | None \<Rightarrow> 10)"

definition effectiveTypes :: "search_options \<Rightarrow> string list" where
  "effectiveTypes opts =
     (case so_types opts of Some ts \<Rightarrow> ts | None \<Rightarrow> [''files'', ''functions'', ''classes''])"

definition effectiveThreshold :: "analyzer_config \<Rightarrow> search_options \<Rightarrow> real" where
  "effectiveThreshold cfg opts =
     (case so_threshold opts of Some t \<Rightarrow> t | None \<Rightarrow> similarityThreshold cfg)"

record search_result =
  r_type :: string
  r_item :: sem_item
  r_similarity :: real

text \<open>
  \<open>documents[i][token]\<close> is truthy when the document counts the token at least once,
  when the token names an inherited member, and for the token \<open>__key\<close>, under which the
  document object holds its key.
\<close>

definition documentHas :: "document \<Rightarrow> string \<Rightarrow> bool" where
  "documentHas d token =
     (if token = ''__key'' then fst d \<noteq> []
      else case getProp (snd d) token of
             Own n \<Rightarrow> n > 0
           | Inherited \<Rightarrow> True
           | Absent \<Rightarrow> False)"

text \<open>The weight of a query token: the average of \<open>idf(token)\<close> over the documents holding it.\<close>

definition averageIdf :: "natural \<Rightarrow> document list \<Rightarrow> string \<Rightarrow> real" where
  "averageIdf nl docs token =
     (let (totalIdf, count) =
            fold (\<lambda>d (totalIdf, count).
                    if documentHas d token then (totalIdf + idf nl docs token, count + 1)
                    else (totalIdf, count)) docs (0, 0 :: nat)
      in if count > 0 then totalIdf / real count else 0)"

definition queryVector :: "natural \<Rightarrow> document list \<Rightarrow> string list \<Rightarrow> vector" where
  "queryVector nl docs queryTokens =
     fold (\<lambda>token qv. AList.update token (averageIdf nl docs token) qv) queryTokens []"

definition searchIn :: "string \<Rightarrow> real \<Rightarrow> vector \<Rightarrow> (string \<times> sem_item) list \<Rightarrow> search_result list" where
  "searchIn ty threshold qv entries =
     concat (map (\<lambda>(key, item).
        case calculateSimilarity (Some qv) (si_vector item) of
          Some similarity \<Rightarrow>
            if similarity \<ge> threshold
            then [\<lparr>r_type = ty, r_item = item, r_similarity = similarity\<rparr>] else []
        | None \<Rightarrow> []) entries)"

text \<open>\<open>results.sort((a, b) => b.similarity - a.similarity)\<close>: a stable sort, larger similarity first.\<close>

definition sortBySimilarity :: "search_result list \<Rightarrow> search_result list" where
  "sortBySimilarity rs = sort_key (\<lambda>r. - r_similarity r) rs"

definition findSimilarElements ::
  "natural \<Rightarrow> semantic_analyzer \<Rightarrow> string \<Rightarrow> search_options \<Rightarrow> search_result list" where
  "findSimilarElements nl sa query opts =
     (let limit = effectiveLimit opts;
          tys = effectiveTypes opts;
          threshold = effectiveThreshold (sa_config sa) opts;
          queryTokens = tokenizeAndStem nl (sa_config sa) query;
          qv = queryVector nl (sa_documents sa) queryTokens;
          results =
            (if ''files'' \<in> set tys
             then searchIn ''file'' threshold qv (sem_files (semanticIndex sa)) else [])
            @ (if ''functions'' \<in> set tys
               then searchIn ''function'' threshold qv (sem_functions (semanticIndex sa)) else [])
            @ (if ''classes'' \<in> set tys
               then searchIn ''class'' threshold qv (sem_classes (semanticIndex sa)) else [])
      in take limit (sortBySimilarity results))"

subsection \<open>Example analyzer\<close>

text \<open>
  A stand-in for the language library: words are maximal runs of letters, digits and
  underscores, stemming is the identity, every term has inverse document frequency 1.
\<close>

definition isWordChar :: "char \<Rightarrow> bool" where
  "isWordChar c = (isLower c \<or> isUpper c \<or> c = CHR ''_''
     \<or> (48 \<le> (of_char c :: nat) \<and> (of_char c :: nat) \<le> 57))"

fun wordSplit :: "string \<Rightarrow> string list" where
  "wordSplit [] = []"
| "wordSplit (c # cs) =
     (if isWordChar c
      then (case cs of
              [] \<Rightarrow> [[c]]
            | d # ds \<Rightarrow> if isWordChar d
                        then (case wordSplit cs of [] \<Rightarrow> [[c]] | w # ws \<Rightarrow> (c # w) # ws)
                        else [c] # wordSplit cs)
      else wordSplit cs)"

fun countTerms :: "string list \<Rightarrow> (string \<times> nat) list" where
  "countTerms [] = []"
| "countTerms (t # ts) =
     (let m = countTerms ts
      in AList.update t (case map_of m t of Some n \<Rightarrow> Suc n | None \<Rightarrow> 1) m)"

definition exampleNatural :: natural where
  "exampleNatural = \<lparr>tokenize = wordSplit, stem = (\<lambda>w. w),
     buildDocument = (\<lambda>tokens key. (key, countTerms tokens)),
     idf = (\<lambda>docs term. 1),
     tfidf = (\<lambda>docs term d. Inr 1),
     listTerms = (\<lambda>docs d. [])\<rparr>"

definition defaultAnalyzerConfig :: analyzer_config where
  "defaultAnalyzerConfig = \<lparr>minTokenLength = 3,
     stopWords = [''the'', ''and'', ''or'', ''to'', ''a'', ''in'', ''of'', ''for'', ''on'', ''with''],
     similarityThreshold = 0.7\<rparr>"

definition semFunction :: "string \<Rightarrow> string \<Rightarrow> vector \<Rightarrow> string \<times> sem_item" where
  "semFunction filePath fname v =
     (''function:'' @ filePath @ '':'' @ fname,
      \<lparr>si_path = None, si_name = Some fname, si_filePath = Some filePath,
        si_tokens = map fst v, si_vector = Some v, si_keywords = [],
        si_params = Some [], si_methods = None\<rparr>)"

definition exampleAnalyzer :: semantic_analyzer where
  "exampleAnalyzer = \<lparr>sa_config = defaultAnalyzerConfig,
     sa_documents = [(''function:/p/a.js:loginUser'', [(''login'', 3), (''user'', 4)]),
                     (''function:/p/a.js:login'', [(''login'', 1)]),
                     (''function:/p/a.js:render'', [(''render'', 1)])],
     semanticIndex = \<lparr>sem_files = [],
       sem_functions = [semFunction ''/p/a.js'' ''loginUser'' [(''login'', 3), (''user'', 4)],
                        semFunction ''/p/a.js'' ''login'' [(''login'', 1)],
                        semFunction ''/p/a.js'' ''render'' [(''render'', 1)]],
       sem_classes = []\<rparr>\<rparr>"

definition halfThreshold :: search_options where
  "halfThreshold = \<lparr>so_limit = Some 5, so_types = None, so_threshold = Some 0.5\<rparr>"

subsection \<open>Building the semantic index\<close>

text \<open>\<open>name.replace(/\.[^/.]+$/, '')\<close>: the last extension of a file name is cut off.\<close>

definition stripExtension :: "string \<Rightarrow> string" where
  "stripExtension fileName =
     (let parts = splitOn CHR ''.'' fileName in
      if length parts \<ge> 2 \<and> last parts \<noteq> [] \<and> CHR ''/'' \<notin> set (last parts)
      then joinWith CHR ''.'' (butlast parts) else fileName)"

text \<open>\<open>[...new Set(tokens)]\<close>: the distinct tokens in order of first occurrence.\<close>

definition uniqueTokens :: "string list \<Rightarrow> string list" where
  "uniqueTokens tokens = rev (remdups (rev tokens))"

fun calculateTfIdfVector ::
  "natural \<Rightarrow> document list \<Rightarrow> string list \<Rightarrow> string \<Rightarrow> vector \<Rightarrow> js_error + vector" where
  "calculateTfIdfVector nl docs [] docId v = Inr v"
| "calculateTfIdfVector nl docs (token # rest) docId v =
     (case tfidf nl docs token docId of
        Inl e \<Rightarrow> Inl e
      | Inr weight \<Rightarrow> calculateTfIdfVector nl docs rest docId (AList.update token weight v))"

text \<open>
  \<open>documents.indexOf(docId)\<close> compares the document objects with a string and finds
  none, so the terms are listed for index \<open>-1\<close>.
\<close>

definition extractKeywords :: "natural \<Rightarrow> document list \<Rightarrow> string \<Rightarrow> nat \<Rightarrow> (string \<times> real) list" where
  "extractKeywords nl docs docId n = take n (listTerms nl docs (- 1))"

text \<open>The second pass over one kind of element: vector and keywords of each stored entry.\<close>

fun fillVectors ::
  "natural \<Rightarrow> document list \<Rightarrow> string list \<Rightarrow> (string \<times> sem_item) list
     \<Rightarrow> js_error + (string \<times> sem_item) list" where
  "fillVectors nl docs [] entries = Inr entries"
| "fillVectors nl docs (docId # rest) entries =
     (case map_of entries docId of
        None \<Rightarrow> Inl (TypeError ''Cannot read properties of undefined (reading tokens)'')
      | Some item \<Rightarrow>
          (case calculateTfIdfVector nl docs (uniqueTokens (si_tokens item)) docId [] of
             Inl e \<Rightarrow> Inl e
           | Inr v \<Rightarrow>
               fillVectors nl docs rest
                 (AList.update docId
                    (item\<lparr>si_vector := Some v,
                          si_keywords := extractKeywords nl docs docId 5\<rparr>) entries)))"

definition newSemItem :: sem_item where
  "newSemItem = \<lparr>si_path = None, si_name = None, si_filePath = None, si_tokens = [],
     si_vector = None, si_keywords = [], si_params = None, si_methods = None\<rparr>"

definition analyzeFiles :: "natural \<Rightarrow> file_entry list \<Rightarrow> semantic_analyzer \<Rightarrow> js_error + semantic_analyzer" where
  "analyzeFiles nl files sa =
     (let sa1 = fold (\<lambda>file sa.
                  let fileNameTokens = tokenizeAndStem nl (sa_config sa) (stripExtension (fe_name file))
                  in sa\<lparr>sa_documents := sa_documents sa @ [buildDocument nl fileNameTokens (fe_path file)],
                        semanticIndex := (semanticIndex sa)\<lparr>sem_files :=
                          AList.update (fe_path file)
                            (newSemItem\<lparr>si_path := Some (fe_path file), si_tokens := fileNameTokens\<rparr>)
                            (sem_files (semanticIndex sa))\<rparr>\<rparr>) files sa
      in case fillVectors nl (sa_documents sa1) (map fe_path files) (sem_files (semanticIndex sa1)) of
           Inl e \<Rightarrow> Inl e
         | Inr entries \<Rightarrow> Inr (sa1\<lparr>semanticIndex := (semanticIndex sa1)\<lparr>sem_files := entries\<rparr>\<rparr>))"

definition functionDocId :: "function_entry \<Rightarrow> string" where
  "functionDocId func = ''function:'' @ f_filePath func @ '':'' @ f_name func"

definition analyzeFunctions ::
  "natural \<Rightarrow> function_entry list \<Rightarrow> semantic_analyzer \<Rightarrow> js_error + semantic_analyzer" where
  "analyzeFunctions nl functions sa =
     (let sa1 = fold (\<lambda>func sa.
                  let allTokens = tokenizeAndStem nl (sa_config sa) (f_name func)
                                    @ tokenizeAndStem nl (sa_config sa) (f_code func)
                  in sa\<lparr>sa_documents := sa_documents sa @ [buildDocument nl allTokens (functionDocId func)],
                        semanticIndex := (semanticIndex sa)\<lparr>sem_functions :=
                          AList.update (functionDocId func)
                            (newSemItem\<lparr>si_name := Some (f_name func),
                                        si_filePath := Some (f_filePath func),
                                        si_tokens := allTokens,
                                        si_params := Some (f_params func)\<rparr>)
                            (sem_functions (semanticIndex sa))\<rparr>\<rparr>) functions sa
      in case fillVectors nl (sa_documents sa1) (map functionDocId functions)
                (sem_functions (semanticIndex sa1)) of
           Inl e \<Rightarrow> Inl e
         | Inr entries \<Rightarrow> Inr (sa1\<lparr>semanticIndex := (semanticIndex sa1)\<lparr>sem_functions := entries\<rparr>\<rparr>))"

definition classDocId :: "class_entry \<Rightarrow> string" where
  "classDocId cls = ''class:'' @ c_filePath cls @ '':'' @ c_name cls"

definition analyzeClasses ::
  "natural \<Rightarrow> class_entry list \<Rightarrow> semantic_analyzer \<Rightarrow> js_error + semantic_analyzer" where
  "analyzeClasses nl classes sa =
     (let sa1 = fold (\<lambda>cls sa.
                  let allTokens = tokenizeAndStem nl (sa_config sa) (c_name cls)
                                    @ tokenizeAndStem nl (sa_config sa) (c_code cls)
                  in sa\<lparr>sa_documents := sa_documents sa @ [buildDocument nl allTokens (classDocId cls)],
                        semanticIndex := (semanticIndex sa)\<lparr>sem_classes :=
                          AList.update (classDocId cls)
                            (newSemItem\<lparr>si_name := Some (c_name cls),
                                        si_filePath := Some (c_filePath cls),
                                        si_tokens := allTokens,
                                        si_methods := Some (map (\<lambda>m. tmpl (m_name m)) (c_methods cls))\<rparr>)
                            (sem_classes (semanticIndex sa))\<rparr>\<rparr>) classes sa
      in case fillVectors nl (sa_documents sa1) (map classDocId classes)
                (sem_classes (semanticIndex sa1)) of
           Inl e \<Rightarrow> Inl e
         | Inr entries \<Rightarrow> Inr (sa1\<lparr>semanticIndex := (semanticIndex sa1)\<lparr>sem_classes := entries\<rparr>\<rparr>))"

definition analyzeCodebase :: "natural \<Rightarrow> code_index \<Rightarrow> semantic_analyzer \<Rightarrow> js_error + semantic_analyzer" where
  "analyzeCodebase nl codeIndex sa =
     (case analyzeFiles nl (ci_files codeIndex)
             (sa\<lparr>sa_documents := [],
                 semanticIndex := \<lparr>sem_files = [], sem_functions = [], sem_classes = []\<rparr>\<rparr>) of
        Inl e \<Rightarrow> Inl e
      | Inr sa1 \<Rightarrow>
          (case analyzeFunctions nl (ci_functions codeIndex) sa1 of
             Inl e \<Rightarrow> Inl e
           | Inr sa2 \<Rightarrow> analyzeClasses nl (ci_classes codeIndex) sa2))"

section \<open>Mapping algorithm\<close>

record task =
  t_id :: string
  t_title :: "string option"
  t_description :: "string option"
  t_type :: "string option"
  t_keywords :: "string list option"
  t_dependencies :: "string list option"

record mapping_config =
  mc_similarityThreshold :: real
  mc_maxResults :: nat
  mc_weightKeywords :: real
  mc_weightDescription :: real

definition defaultMappingConfig :: mapping_config where
  "defaultMappingConfig = \<lparr>mc_similarityThreshold = 0.7, mc_maxResults = 10,
     mc_weightKeywords = 0.6, mc_weightDescription = 0.4\<rparr>"

text \<open>Process-wide state: the slot \<open>global.semanticAnalyzer\<close>.\<close>

record globals =
  g_semanticAnalyzer :: "semantic_analyzer option"

text \<open>\<open>value || fallback\<close> on strings and lists: absent and empty strings are falsy.\<close>

definition orEmpty :: "string option \<Rightarrow> string" where
  "orEmpty v = (case v of Some x \<Rightarrow> x | None \<Rightarrow> [])"

definition orNil :: "'a list option \<Rightarrow> 'a list" where
  "orNil v = (case v of Some xs \<Rightarrow> xs | None \<Rightarrow> [])"

definition joinWords :: "string list \<Rightarrow> string" where
  "joinWords ws = joinWith CHR '' '' ws"

record combined = search_result +
  cb_weight :: real
  cb_originalSimilarity :: real

definition resultKey :: "string \<Rightarrow> sem_item \<Rightarrow> string" where
  "resultKey ty item = ty @ '':'' @ tmpl (si_filePath item) @ '':'' @ tmpl (si_name item)"

definition combineOne :: "real \<Rightarrow> search_result \<Rightarrow> (string \<times> combined) list \<Rightarrow> (string \<times> combined) list" where
  "combineOne weight result m =
     (let key = resultKey (r_type result) (r_item result) in
      case map_of m key of
        Some existing \<Rightarrow>
          (let total = r_similarity existing * cb_weight existing + r_similarity result * weight;
               newWeight = cb_weight existing + weight
           in AList.update key
                (existing\<lparr>r_similarity := total / newWeight, cb_weight := newWeight\<rparr>) m)
      | None \<Rightarrow>
          AList.update key
            (search_result.extend result
               (combined.fields weight (r_similarity result))) m)"

definition sortCombined :: "combined list \<Rightarrow> combined list" where
  "sortCombined cs = sort_key (\<lambda>c. - r_similarity c) cs"

definition combineSearchResults :: "(search_result list \<times> real) list \<Rightarrow> combined list" where
  "combineSearchResults resultSets =
     sortCombined (map snd
       (fold (\<lambda>(results, weight) m. fold (combineOne weight) results m) resultSets []))"

definition thresholdOnly :: "real \<Rightarrow> search_options" where
  "thresholdOnly th = \<lparr>so_limit = None, so_types = None, so_threshold = Some th\<rparr>"

definition findSimilarCodeElements ::
  "natural \<Rightarrow> mapping_config \<Rightarrow> semantic_analyzer \<Rightarrow> task \<Rightarrow> combined list" where
  "findSimilarCodeElements nl cfg sa t =
     (let titleResults = findSimilarElements nl sa (orEmpty (t_title t))
                           (thresholdOnly (mc_similarityThreshold cfg * 0.8));
          descriptionResults = findSimilarElements nl sa (orEmpty (t_description t))
                                 (thresholdOnly (mc_similarityThreshold cfg));
          keywordResults = findSimilarElements nl sa (joinWords (orNil (t_keywords t)))
                             (thresholdOnly (mc_similarityThreshold cfg * 0.9))
      in combineSearchResults
           [(titleResults, 0.3), (descriptionResults, 0.4), (keywordResults, 0.3)])"

text \<open>
  The \<open>dependencyGraph\<close> argument of \<open>mapTask\<close>: absent, a plain graph object (what
  \<open>buildDependencyGraph\<close> returns, without methods), or an object with a
  \<open>getNodeDependencies\<close> method. The method returns a list of values, each a string or a
  traversal entry \<open>{id, node, edge, depth}\<close>.
\<close>

datatype js_dep = DepString string | DepEntry dependency

datatype graph_handle =
    NoGraph
  | GraphData graph
  | GraphWithTraversal "string \<Rightarrow> js_dep list"

text \<open>The dependency analyzer itself, used as the graph argument.\<close>

definition analyzerHandle :: "graph \<Rightarrow> graph_handle" where
  "analyzerHandle g = GraphWithTraversal (\<lambda>nodeId. map DepEntry (getNodeDependencies g nodeId defaults))"

fun stringIncludes :: "string \<Rightarrow> string \<Rightarrow> bool" where
  "stringIncludes [] sub = (sub = [])"
| "stringIncludes (c # cs) sub = (startsWith (c # cs) sub \<or> stringIncludes cs sub)"

text \<open>
  The test \<open>elemDep.includes(taskDep) || taskDep.includes(elemDep)\<close>. A traversal entry
  is an object without an \<open>includes\<close> method, so the first call raises.
\<close>

definition dependencyMatches :: "js_dep \<Rightarrow> string \<Rightarrow> js_error + bool" where
  "dependencyMatches elemDep taskDep =
     (case elemDep of
        DepString s \<Rightarrow> Inr (stringIncludes s taskDep \<or> stringIncludes taskDep s)
      | DepEntry d \<Rightarrow> Inl (TypeError ''elemDep.includes is not a function''))"

fun scoreDependencies :: "js_dep list \<Rightarrow> (string \<times> js_dep) list \<Rightarrow> real \<Rightarrow> js_error + real" where
  "scoreDependencies elementDependencies [] score = Inr score"
| "scoreDependencies elementDependencies ((taskDep, elemDep) # rest) score =
     (case dependencyMatches elemDep taskDep of
        Inl e \<Rightarrow> Inl e
      | Inr matched \<Rightarrow>
          scoreDependencies elementDependencies rest (if matched then score + 0.1 else score))"

text \<open>The pairs visited by the two nested loops, task dependencies outermost.\<close>

definition dependencyPairs :: "string list \<Rightarrow> js_dep list \<Rightarrow> (string \<times> js_dep) list" where
  "dependencyPairs taskDependencies elementDependencies =
     concat (map (\<lambda>taskDep. map (\<lambda>elemDep. (taskDep, elemDep)) elementDependencies)
               taskDependencies)"

record ranked = combined +
  rk_dependencyScore :: "real option"
  rk_finalScore :: "real option"

definition unranked :: "combined \<Rightarrow> ranked" where
  "unranked c = combined.extend c (ranked.fields None None)"

definition rankOne :: "(string \<Rightarrow> js_dep list) \<Rightarrow> string list \<Rightarrow> combined \<Rightarrow> js_error + ranked" where
  "rankOne getDeps taskDependencies element =
     (let elementKey = resultKey (r_type element) (r_item element);
          elementDependencies = getDeps elementKey
      in case scoreDependencies elementDependencies
                (dependencyPairs taskDependencies elementDependencies) 0 of
           Inl e \<Rightarrow> Inl e
         | Inr dependencyScore \<Rightarrow>
             Inr (combined.extend element
                    (ranked.fields (Some dependencyScore)
                       (Some (r_similarity element * 0.8 + dependencyScore * 0.2)))))"

fun mapUntilError :: "('a \<Rightarrow> js_error + 'b) \<Rightarrow> 'a list \<Rightarrow> js_error + 'b list" where
  "mapUntilError f [] = Inr []"
| "mapUntilError f (x # xs) =
     (case f x of
        Inl e \<Rightarrow> Inl e
      | Inr y \<Rightarrow> (case mapUntilError f xs of Inl e \<Rightarrow> Inl e | Inr ys \<Rightarrow> Inr (y # ys)))"

definition finalOrZero :: "ranked \<Rightarrow> real" where
  "finalOrZero r = (case rk_finalScore r of Some f \<Rightarrow> f | None \<Rightarrow> 0)"

definition rankResultsByDependencies ::
  "combined list \<Rightarrow> graph_handle \<Rightarrow> task \<Rightarrow> js_error + ranked list" where
  "rankResultsByDependencies similarElements dependencyGraph t =
     (case dependencyGraph of
        NoGraph \<Rightarrow> Inr (map unranked similarElements)
      | GraphData g \<Rightarrow> Inr (map unranked similarElements)
      | GraphWithTraversal getDeps \<Rightarrow>
          (case mapUntilError (rankOne getDeps (orNil (t_dependencies t))) similarElements of
             Inl e \<Rightarrow> Inl e
           | Inr rankedResults \<Rightarrow> Inr (sort_key (\<lambda>r. - finalOrZero r) rankedResults)))"

datatype confidence = HighConfidence | MediumConfidence | LowConfidence

definition calculateConfidence :: "real \<Rightarrow> confidence" where
  "calculateConfidence score =
     (if score \<ge> 0.8 then HighConfidence
      else if score \<ge> 0.6 then MediumConfidence
      else LowConfidence)"

record mapping_result =
  mr_taskId :: string
  mr_taskTitle :: "string option"
  mr_taskType :: "string option"
  mr_elementType :: string
  mr_elementName :: "string option"
  mr_elementFilePath :: "string option"
  mr_location :: loc
  mr_similarity :: real
  mr_dependencyScore :: real
  mr_finalScore :: real
  mr_confidence :: confidence

text \<open>\<open>finalScore || similarity\<close>: an absent or zero final score gives way to the similarity.\<close>

definition scoreOrSimilarity :: "ranked \<Rightarrow> real" where
  "scoreOrSimilarity r =
     (case rk_finalScore r of
        Some f \<Rightarrow> if f \<noteq> 0 then f else r_similarity r
      | None \<Rightarrow> r_similarity r)"

definition generateMappingResults :: "mapping_config \<Rightarrow> ranked list \<Rightarrow> task \<Rightarrow> mapping_result list" where
  "generateMappingResults cfg rankedResults t =
     map (\<lambda>r.
        \<lparr>mr_taskId = t_id t, mr_taskTitle = t_title t, mr_taskType = t_type t,
         mr_elementType = r_type r, mr_elementName = si_name (r_item r),
         mr_elementFilePath = si_filePath (r_item r), mr_location = (0, 0),
         mr_similarity = r_similarity r,
         mr_dependencyScore = (case rk_dependencyScore r of Some d \<Rightarrow> d | None \<Rightarrow> 0),
         mr_finalScore = scoreOrSimilarity r,
         mr_confidence = calculateConfidence (scoreOrSimilarity r)\<rparr>)
       (take (mc_maxResults cfg) rankedResults)"

definition analyzerMissing :: js_error where
  "analyzerMissing =
     Error ''Semantic analyzer not available. Initialize the code mapping engine first.''"

definition mapTask ::
  "natural \<Rightarrow> mapping_config \<Rightarrow> globals \<Rightarrow> task \<Rightarrow> code_index \<Rightarrow> graph_handle
     \<Rightarrow> js_error + mapping_result list" where
  "mapTask nl cfg gl t codeIndex dependencyGraph =
     (case g_semanticAnalyzer gl of
        None \<Rightarrow> Inl analyzerMissing
      | Some semanticAnalyzer \<Rightarrow>
          (let similarElements = findSimilarCodeElements nl cfg semanticAnalyzer t in
           case rankResultsByDependencies similarElements dependencyGraph t of
             Inl e \<Rightarrow> Inl e
           | Inr rankedResults \<Rightarrow> Inr (generateMappingResults cfg rankedResults t)))"

section \<open>Engine\<close>

record engine =
  e_indexerConfig :: indexer_config
  e_analyzerOptions :: analyzer_options
  e_mappingConfig :: mapping_config
  e_semanticAnalyzer :: semantic_analyzer
  e_codeIndex :: "code_index option"
  e_dependencyGraph :: "graph option"

definition newAnalyzer :: semantic_analyzer where
  "newAnalyzer = \<lparr>sa_config = defaultAnalyzerConfig, sa_documents = [],
     semanticIndex = \<lparr>sem_files = [], sem_functions = [], sem_classes = []\<rparr>\<rparr>"

definition newEngine :: engine where
  "newEngine = \<lparr>e_indexerConfig = defaultIndexerConfig,
     e_analyzerOptions = defaultAnalyzerOptions,
     e_mappingConfig = defaultMappingConfig,
     e_semanticAnalyzer = newAnalyzer,
     e_codeIndex = None, e_dependencyGraph = None\<rparr>"

text \<open>
  \<open>initialize\<close> runs the three steps in order. Each assignment to the engine happens
  when its step returns, so an exception of the semantic analysis leaves the code index
  set and the graph unset. The outcome is the exception, if any, with the state after
  the call. No step writes the process-wide slot.
\<close>

definition initialize ::
  "natural \<Rightarrow> world \<Rightarrow> string \<Rightarrow> globals \<times> engine \<Rightarrow> js_error option \<times> globals \<times> engine" where
  "initialize nl w codebasePath st =
     (let gl = fst st; eng = snd st;
          codeIndex = indexCodebase w (e_indexerConfig eng) codebasePath;
          eng1 = eng\<lparr>e_codeIndex := Some codeIndex\<rparr>
      in case analyzeCodebase nl codeIndex (e_semanticAnalyzer eng1) of
           Inl e \<Rightarrow> (Some e, gl, eng1)
         | Inr sa \<Rightarrow>
             (None, gl,
              eng1\<lparr>e_semanticAnalyzer := sa,
                   e_dependencyGraph :=
                     Some (buildDependencyGraph w (e_analyzerOptions eng1) codeIndex)\<rparr>))"

definition notInitialized :: js_error where
  "notInitialized = Error ''Code mapping engine not initialized. Call initialize() first.''"

definition graphArgument :: "graph option \<Rightarrow> graph_handle" where
  "graphArgument g = (case g of Some d \<Rightarrow> GraphData d | None \<Rightarrow> NoGraph)"

definition mapTaskToCode ::
  "natural \<Rightarrow> globals \<times> engine \<Rightarrow> task \<Rightarrow> js_error + mapping_result list" where
  "mapTaskToCode nl st t =
     (case e_codeIndex (snd st) of
        None \<Rightarrow> Inl notInitialized
      | Some codeIndex \<Rightarrow>
          mapTask nl (e_mappingConfig (snd st)) (fst st) t codeIndex
            (graphArgument (e_dependencyGraph (snd st))))"

subsection \<open>Example task\<close>

definition loginTask :: task where
  "loginTask = \<lparr>t_id = ''T1'', t_title = Some ''login'', t_description = Some ''login'',
     t_type = Some ''feature'', t_keywords = Some [''login''],
     t_dependencies = Some [''a.js'']\<rparr>"

definition loginAnalyzer :: semantic_analyzer where
  "loginAnalyzer = \<lparr>sa_config = defaultAnalyzerConfig,
     sa_documents = [(''function:/p/a.js:login'', [(''login'', 1)]),
                     (''function:/p/a.js:render'', [(''render'', 1)])],
     semanticIndex = \<lparr>sem_files = [],
       sem_functions = [semFunction ''/p/a.js'' ''login'' [(''login'', 1)],
                        semFunction ''/p/a.js'' ''render'' [(''render'', 1)]],
       sem_classes = []\<rparr>\<rparr>"

definition loginGraph :: graph where
  "loginGraph =
     addFunctionsToGraph
       [\<lparr>f_name = ''login'', f_params = [], f_loc = (1, 1), f_code = ''function login(){}'',
         f_filePath = ''/p/a.js''\<rparr>]
       (addFilesToGraph
          [\<lparr>fe_path = ''/p/a.js'', fe_name = ''a.js'', fe_extension = ''.js'', fe_size = 18,
            fe_lastModified = None, fe_functions = [], fe_classes = []\<rparr>] emptyGraph)"

section \<open>Risk level (C7)\<close>

text \<open>
  C7. The risk level is high exactly when the total impact score exceeds 50 or more than
  20 files are impacted; it is medium exactly when it is not high and the score exceeds
  20 or more than 10 files are impacted; it is low in every other case.
\<close>

theorem calculateRiskLevel_iff:
  "(calculateRiskLevel ia = High) =
     (totalImpactScore ia > 50 \<or> length (impactedFiles ia) > 20)
   \<and> (calculateRiskLevel ia = Medium) =
     (\<not> (totalImpactScore ia > 50 \<or> length (impactedFiles ia) > 20)
      \<and> (totalImpactScore ia > 20 \<or> length (impactedFiles ia) > 10))
   \<and> (calculateRiskLevel ia = Low) =
     (\<not> (totalImpactScore ia > 50 \<or> length (impactedFiles ia) > 20)
      \<and> \<not> (totalImpactScore ia > 20 \<or> length (impactedFiles ia) > 10))"
  by (simp add: calculateRiskLevel_def)

section \<open>Edge insertion (C8)\<close>

lemma nodes_addEdge: "nodes (addEdge s t ty md g) = nodes g"
  by (simp add: addEdge_def split: option.splits)

lemma isNode_addEdge: "isNode (addEdge s t ty md g) i = isNode g i"
  by (simp add: isNode_def nodes_addEdge)

lemma hasNode_ordinary: "i \<notin> set objectPrototypeMembers \<Longrightarrow> hasNode g i = isNode g i"
  by (simp add: hasNode_def isNode_def getProp_def split: option.splits)

lemma edgeKey_updateFirst:
  "map edgeKey (updateFirst P (\<lambda>e. e\<lparr>metadata := h e\<rparr>) es) = map edgeKey es"
  by (induction es) (simp_all add: edgeKey_def)

lemma sameEdge_edgeKey: "sameEdge s t ty e = (edgeKey e = (s, t, ty))"
  by (auto simp: sameEdge_def edgeKey_def)

lemma find_None_edgeKey:
  "find (sameEdge s t ty) es = None \<Longrightarrow> (s, t, ty) \<notin> set (map edgeKey es)"
  by (auto simp: find_None_iff sameEdge_edgeKey)

text \<open>
  Between identifiers that name no inherited member, \<open>addEdge\<close> keeps every edge
  attached to nodes.
\<close>

lemma endpointsExist_addEdge:
  assumes inv: "endpointsExist g"
    and ord: "s \<notin> set objectPrototypeMembers" "t \<notin> set objectPrototypeMembers"
  shows "endpointsExist (addEdge s t ty md g)"
proof -
  have upd: "list_all Q (updateFirst P (\<lambda>e. e\<lparr>metadata := h e\<rparr>) es)"
    if "list_all Q es" and "\<And>e. Q (e\<lparr>metadata := h e\<rparr>) = Q e"
    for Q :: "edge \<Rightarrow> bool" and P h es
    using that by (induction es) auto
  show ?thesis
    using inv
    by (auto simp: addEdge_def endpointsExist_def hasNode_ordinary[OF ord(1)]
        hasNode_ordinary[OF ord(2)] isNode_def intro!: upd split: option.splits)
qed

text \<open>No call of \<open>addEdge\<close> creates a second edge with the same source, target and type.\<close>

lemma edgesUnique_addEdge:
  assumes u: "edgesUnique g"
  shows "edgesUnique (addEdge s t ty md g)"
proof (cases "find (sameEdge s t ty) (edges g)")
  case None
  then have "(s, t, ty) \<notin> set (map edgeKey (edges g))"
    by (rule find_None_edgeKey)
  then show ?thesis
    using None u by (simp add: addEdge_def edgesUnique_def edgeKey_def)
next
  case (Some e)
  then show ?thesis
    using u by (simp add: addEdge_def edgesUnique_def edgeKey_updateFirst)
qed

lemma edgesUnique_addEdges: "edgesUnique g \<Longrightarrow> edgesUnique (addEdges cs g)"
  by (induction cs arbitrary: g) (auto simp: edgesUnique_addEdge)

lemma endpointsExist_addEdges:
  "endpointsExist g \<Longrightarrow> ordinaryCalls cs \<Longrightarrow> endpointsExist (addEdges cs g)"
  by (induction cs arbitrary: g) (auto simp: ordinaryCalls_def endpointsExist_addEdge)

lemma addEdge_missing_endpoint:
  "\<not> hasNode g s \<or> \<not> hasNode g t \<Longrightarrow> addEdge s t ty md g = g"
  by (auto simp: addEdge_def)

text \<open>
  A repeated triple appends nothing and writes the new metadata over the metadata of
  the edge already there: on the two-node graph, adding \<open>a \<rightarrow> b\<close> twice, the second time
  with weight 3, and then an edge to the missing \<open>file:z\<close>, leaves one edge of weight 3.
\<close>

lemma addEdges_repeat:
  "edges (addEdges [(''file:a'', ''file:b'', ''imports'', []),
                    (''file:a'', ''file:b'', ''imports'', [(''weight'', 3), (''line'', 7)]),
                    (''file:a'', ''file:z'', ''imports'', [])] twoNodeGraph)
     = [\<lparr>source = ''file:a'', target = ''file:b'', etype = ''imports'',
          metadata = [(''weight'', 3), (''line'', 7)]\<rparr>]"
  by code_simp

text \<open>
  C8. The test \<open>nodes[targetId]\<close> of \<open>addEdge\<close> is a property read on a plain object,
  so it also succeeds for the name of an inherited member. On the graph with the two
  nodes \<open>file:a\<close> and \<open>file:b\<close>, the call \<open>addEdge('file:a', 'constructor', 'imports')\<close>
  appends an edge whose target is not in the node map: the graph has a dangling edge.
\<close>

theorem addEdge_inherited_target_dangles:
  "map fst (nodes twoNodeGraph) = [''file:a'', ''file:b'']
   \<and> edges twoNodeGraph = []
   \<and> nodes inheritedTargetCall = nodes twoNodeGraph
   \<and> edges inheritedTargetCall
       = [\<lparr>source = ''file:a'', target = ''constructor'', etype = ''imports'',
            metadata = [(''weight'', 1)]\<rparr>]
   \<and> \<not> isNode inheritedTargetCall ''constructor''
   \<and> \<not> endpointsExist inheritedTargetCall"
  by code_simp

section \<open>Bounded traversal (C1)\<close>

lemma depthOk_push:
  "depthOk opts st \<Longrightarrow> cd < depth opts \<Longrightarrow>
   depthOk opts (fst st, snd st @ [\<lparr>dep_id = t, dep_node = n, dep_edge = e, dep_depth = cd + 1\<rparr>])"
  by (simp add: depthOk_def)

lemma depthOk_visited: "depthOk opts (v, snd st) = depthOk opts st"
  by (simp add: depthOk_def)

lemma depth_bound_aux:
  "depthOk opts st \<longrightarrow> depthOk opts (getDependenciesRecursive g opts nodeId cd st)"
  "cd < depth opts \<longrightarrow> depthOk opts st' \<longrightarrow> depthOk opts (forEdges g opts es cd st')"
proof (induction g opts nodeId cd st and g opts es cd st'
        rule: getDependenciesRecursive_forEdges.induct)
  case (1 g opts nodeId currentDepth st)
  show ?case
  proof (cases "currentDepth \<ge> depth opts")
    case True
    then show ?thesis by simp
  next
    case False
    with 1 show ?thesis by (simp add: depthOk_visited)
  qed
next
  case (2 g opts currentDepth st)
  show ?case by simp
next
  case (3 g opts e es currentDepth st)
  show ?case
  proof (intro impI)
    assume lt: "currentDepth < depth opts" and ok: "depthOk opts st"
    define targetId where "targetId = edgeTarget opts e"
    show "depthOk opts (forEdges g opts (e # es) currentDepth st)"
    proof (cases "targetId \<in> set (fst st)")
      case True
      with 3(1)[OF targetId_def] lt ok show ?thesis
        by (simp add: targetId_def)
    next
      case unseen: False
      show ?thesis
      proof (cases "getProp (nodes g) targetId = Absent")
        case True
        with 3(2)[OF targetId_def unseen] lt ok unseen show ?thesis
          by (simp add: targetId_def)
      next
        case present: False
        define deps where "deps = snd st @ [\<lparr>dep_id = targetId,
          dep_node = getProp (nodes g) targetId, dep_edge = e, dep_depth = currentDepth + 1\<rparr>]"
        have ok': "depthOk opts (fst st, deps)"
          unfolding deps_def using ok lt by (rule depthOk_push)
        show ?thesis
        proof (cases "int (length deps) \<ge> maxResults opts")
          case True
          with ok' unseen present show ?thesis
            by (simp add: targetId_def deps_def Let_def del: getDependenciesRecursive.simps)
        next
          case False
          from 3(3)[OF targetId_def unseen present deps_def False] ok'
          have "depthOk opts (getDependenciesRecursive g opts targetId (currentDepth + 1) (fst st, deps))"
            by blast
          with 3(4)[OF targetId_def unseen present deps_def False] lt
          have "depthOk opts (forEdges g opts es currentDepth
                  (getDependenciesRecursive g opts targetId (currentDepth + 1) (fst st, deps)))"
            by blast
          with unseen present False show ?thesis
            by (simp add: targetId_def deps_def Let_def del: getDependenciesRecursive.simps)
        qed
      qed
    qed
  qed
qed

text \<open>The depth part of the traversal contract holds: no entry lies deeper than \<open>depth\<close>.\<close>

lemma getNodeDependencies_depth_le:
  "d \<in> set (getNodeDependencies g nodeId opts) \<Longrightarrow> dep_depth d \<le> depth opts"
  using depth_bound_aux(1)[of opts "([], [])" g nodeId 0]
  by (auto simp: getNodeDependencies_def depthOk_def list_all_iff split: if_splits
           simp del: getDependenciesRecursive.simps)

text \<open>
  C1. On the diamond graph with depth 2 the traversal from \<open>a\<close> reports \<open>d\<close> twice: a node
  reached at the depth limit is never entered into \<open>visited\<close>, because the recursive call
  returns before marking it. With \<open>maxResults = 2\<close> the same traversal returns three
  entries: the \<open>return\<close> on reaching the limit ends the inner invocation only, and the
  caller's loop goes on to push the next entry.
\<close>

theorem getNodeDependencies_diamond:
  "map dep_id (getNodeDependencies diamondGraph ''file:a'' (defaults\<lparr>depth := 2\<rparr>))
     = [''file:b'', ''file:d'', ''file:c'', ''file:d'']
   \<and> map dep_id (getNodeDependencies diamondGraph ''file:a''
                   (defaults\<lparr>depth := 2, maxResults := 2\<rparr>))
     = [''file:b'', ''file:d'', ''file:c'']"
  by code_simp

section \<open>Similarity search (C6)\<close>

lemma searchIn_threshold: "r \<in> set (searchIn ty th qv es) \<Longrightarrow> th \<le> r_similarity r"
  by (induction es) (auto simp: searchIn_def Let_def split: if_splits option.splits)

lemma sortBySimilarity_set: "set (sortBySimilarity rs) = set rs"
  by (simp add: sortBySimilarity_def)

lemma sortBySimilarity_sorted:
  "sorted_wrt (\<lambda>a b. r_similarity a \<ge> r_similarity b) (sortBySimilarity rs)"
proof -
  have "sorted (map (\<lambda>r. - r_similarity r) (sortBySimilarity rs))"
    by (simp add: sortBySimilarity_def)
  then show ?thesis
    by (simp add: sorted_wrt_map)
qed

lemma sqrt25: "sqrt 25 = 5"
  by (rule real_sqrt_unique) auto

lemma example_tokens: "tokenizeAndStem exampleNatural defaultAnalyzerConfig ''login'' = [''login'']"
  by code_simp

lemma example_queryVector:
  "queryVector exampleNatural (sa_documents exampleAnalyzer) [''login''] = [(''login'', 1)]"
  by (simp add: queryVector_def averageIdf_def documentHas_def getProp_def objectPrototypeMembers_def
        exampleAnalyzer_def exampleNatural_def)

lemma example_similarities:
  "calculateSimilarity (Some [(''login'', 1)]) (Some [(''login'', 3), (''user'', 4)]) = Some (3 / 5)"
  "calculateSimilarity (Some [(''login'', 1)]) (Some [(''login'', 1)]) = Some 1"
  "calculateSimilarity (Some [(''login'', 1)]) (Some [(''render'', 1)]) = Some 0"
  by (simp_all add: calculateSimilarity_def cosineDistance_def magnitude_def dotProduct_def
        getProp_def objectPrototypeMembers_def sqrt25)

lemma example_search:
  "findSimilarElements exampleNatural exampleAnalyzer ''login'' halfThreshold =
     [\<lparr>r_type = ''function'', r_item = snd (semFunction ''/p/a.js'' ''login'' [(''login'', 1)]),
        r_similarity = 1\<rparr>,
      \<lparr>r_type = ''function'',
        r_item = snd (semFunction ''/p/a.js'' ''loginUser'' [(''login'', 3), (''user'', 4)]),
        r_similarity = 3 / 5\<rparr>]"
proof -
  have cfg: "sa_config exampleAnalyzer = defaultAnalyzerConfig"
    by (simp add: exampleAnalyzer_def)
  have idx: "semanticIndex exampleAnalyzer = \<lparr>sem_files = [],
       sem_functions = [semFunction ''/p/a.js'' ''loginUser'' [(''login'', 3), (''user'', 4)],
                        semFunction ''/p/a.js'' ''login'' [(''login'', 1)],
                        semFunction ''/p/a.js'' ''render'' [(''render'', 1)]],
       sem_classes = []\<rparr>"
    by (simp add: exampleAnalyzer_def)
  have vec: "si_vector (snd (semFunction p n v)) = Some v" for p n v
    by (simp add: semFunction_def)
  have pr: "semFunction p n v = (fst (semFunction p n v), snd (semFunction p n v))" for p n v
    by simp
  have found: "searchIn ''function'' (1 / 2) [(''login'', 1)]
      [semFunction ''/p/a.js'' ''loginUser'' [(''login'', 3), (''user'', 4)],
       semFunction ''/p/a.js'' ''login'' [(''login'', 1)],
       semFunction ''/p/a.js'' ''render'' [(''render'', 1)]]
    = [\<lparr>r_type = ''function'',
        r_item = snd (semFunction ''/p/a.js'' ''loginUser'' [(''login'', 3), (''user'', 4)]),
        r_similarity = 3 / 5\<rparr>,
       \<lparr>r_type = ''function'', r_item = snd (semFunction ''/p/a.js'' ''login'' [(''login'', 1)]),
        r_similarity = 1\<rparr>]"
    by (simp add: searchIn_def case_prod_beta vec example_similarities Let_def)
  have none: "searchIn ty th qv [] = []" for ty th qv
    by (simp add: searchIn_def)
  show ?thesis
    by (simp add: none findSimilarElements_def cfg idx example_tokens example_queryVector
          halfThreshold_def effectiveLimit_def effectiveTypes_def effectiveThreshold_def
          found sortBySimilarity_def Let_def)
qed

text \<open>
  C6. Whatever the query and the options, every element returned by
  \<open>findSimilarElements\<close> has a similarity at or above the effective threshold (the
  option if given, else the configured one), the returned list is in non-increasing order
  of similarity, and it has at most \<open>limit\<close> entries.
\<close>

theorem findSimilarElements_contract:
  "(\<forall>r\<in>set (findSimilarElements nl sa query opts).
      r_similarity r \<ge> effectiveThreshold (sa_config sa) opts)
   \<and> sorted_wrt (\<lambda>a b. r_similarity a \<ge> r_similarity b) (findSimilarElements nl sa query opts)
   \<and> length (findSimilarElements nl sa query opts) \<le> effectiveLimit opts"
proof (intro conjI ballI)
  fix r assume "r \<in> set (findSimilarElements nl sa query opts)"
  then have "r \<in> set (sortBySimilarity
      ((if ''files'' \<in> set (effectiveTypes opts)
             then searchIn ''file'' (effectiveThreshold (sa_config sa) opts) (queryVector nl (sa_documents sa) (tokenizeAndStem nl (sa_config sa) query)) (sem_files (semanticIndex sa)) else [])
            @ (if ''functions'' \<in> set (effectiveTypes opts)
               then searchIn ''function'' (effectiveThreshold (sa_config sa) opts) (queryVector nl (sa_documents sa) (tokenizeAndStem nl (sa_config sa) query)) (sem_functions (semanticIndex sa)) else [])
            @ (if ''classes'' \<in> set (effectiveTypes opts)
               then searchIn ''class'' (effectiveThreshold (sa_config sa) opts) (queryVector nl (sa_documents sa) (tokenizeAndStem nl (sa_config sa) query)) (sem_classes (semanticIndex sa)) else [])))"
    unfolding findSimilarElements_def Let_def by (rule in_set_takeD)
  then show "effectiveThreshold (sa_config sa) opts \<le> r_similarity r"
    unfolding sortBySimilarity_set
    by (auto dest: searchIn_threshold split: if_splits)
next
  show "sorted_wrt (\<lambda>a b. r_similarity a \<ge> r_similarity b) (findSimilarElements nl sa query opts)"
    unfolding findSimilarElements_def Let_def
    by (intro sorted_wrt_take sortBySimilarity_sorted)
next
  show "length (findSimilarElements nl sa query opts) \<le> effectiveLimit opts"
    unfolding findSimilarElements_def Let_def by simp
qed

theorem findSimilarElements_contract_witness:
  "map r_similarity (findSimilarElements exampleNatural exampleAnalyzer ''login'' halfThreshold)
     = [1, 3 / 5]
   \<and> effectiveThreshold (sa_config exampleAnalyzer) halfThreshold = 1 / 2
   \<and> sorted_wrt (\<lambda>a b. r_similarity a \<ge> r_similarity b)
        (findSimilarElements exampleNatural exampleAnalyzer ''login'' halfThreshold)
   \<and> length (findSimilarElements exampleNatural exampleAnalyzer ''login'' halfThreshold)
        \<le> effectiveLimit halfThreshold"
  using findSimilarElements_contract[of exampleNatural exampleAnalyzer "''login''" halfThreshold]
    example_search
  by (simp add: effectiveThreshold_def halfThreshold_def)

section \<open>Cosine distance (C5)\<close>









section \<open>File failures during indexing (C9)\<close>

lemma scanEntries_append:
  "scanEntries w cfg dir lvl (xs @ ys) idx
     = scanEntries w cfg dir lvl ys (scanEntries w cfg dir lvl xs idx)"
  by (induction xs arbitrary: idx) (simp_all add: Let_def del: scanDirectory.simps)

lemma indexFile_read_failure: "w_readFile w p = None \<Longrightarrow> indexFile w p idx = idx"
  by (simp add: indexFile_def)

lemma indexFile_stat_failure:
  "w_readFile w p = Some content \<Longrightarrow> w_stat w p = None \<Longrightarrow> indexFile w p idx = idx"
  by (simp add: indexFile_def)

lemma indexFile_parse_failure:
  assumes "w_readFile w p = Some content" "w_stat w p = Some mtime" "w_parse w content = None"
  shows "indexFile w p idx =
           idx\<lparr>ci_files := ci_files idx @
                  [\<lparr>fe_path = p, fe_name = path_basename p, fe_extension = path_extname p,
                    fe_size = length content, fe_lastModified = Some mtime,
                    fe_functions = [], fe_classes = []\<rparr>]\<rparr>"
  using assms by (simp add: indexFile_def parseCode_def newFileIndex_def)

lemma scanEntries_file:
  assumes "d_kind entry = FileEntry" "path_extname (d_name entry) \<in> set (fileExtensions cfg)"
  shows "scanEntries w cfg dir lvl (entry # rest) idx
           = scanEntries w cfg dir lvl rest (indexFile w (path_join dir (d_name entry)) idx)"
  using assms by (simp add: Let_def del: scanDirectory.simps)

lemma indexFile_keeps: "set (ci_files idx) \<subseteq> set (ci_files (indexFile w p idx))"
  by (auto simp: indexFile_def Let_def split: option.splits)

lemma scan_keeps:
  "set (ci_files idx) \<subseteq> set (ci_files (scanDirectory w cfg dir lvl idx))"
  "set (ci_files idx') \<subseteq> set (ci_files (scanEntries w cfg dir lvl es idx'))"
proof (induction w cfg dir lvl idx and w cfg dir lvl es idx'
         rule: scanDirectory_scanEntries.induct)
  case (1 w cfg dirPath level idx)
  then show ?case by (auto split: option.splits)
next
  case (2 w cfg dirPath level idx)
  then show ?case by simp
next
  case (3 w cfg dirPath level entry rest idx)
  define entryPath where "entryPath = path_join dirPath (d_name entry)"
  show ?case
  proof (cases "d_kind entry")
    case DirectoryEntry
    show ?thesis
    proof (cases "d_name entry \<in> set (excludeDirs cfg)")
      case True
      with DirectoryEntry 3(1)[OF entryPath_def] show ?thesis
        by (simp add: Let_def del: scanDirectory.simps)
    next
      case False
      from 3(2)[OF entryPath_def DirectoryEntry False]
        3(3)[OF entryPath_def DirectoryEntry False]
      have "set (ci_files idx)
          \<subseteq> set (ci_files (scanEntries w cfg dirPath level rest
                 (scanDirectory w cfg entryPath (level + 1) idx)))"
        by (rule subset_trans)
      with DirectoryEntry False show ?thesis
        by (simp add: Let_def entryPath_def del: scanDirectory.simps)
    qed
  next
    case FileEntry
    then have nd: "d_kind entry \<noteq> DirectoryEntry" by simp
    show ?thesis
    proof (cases "path_extname (d_name entry) \<in> set (fileExtensions cfg)")
      case True
      from indexFile_keeps[of idx w entryPath] 3(4)[OF entryPath_def nd FileEntry True]
      have "set (ci_files idx)
          \<subseteq> set (ci_files (scanEntries w cfg dirPath level rest (indexFile w entryPath idx)))"
        by (rule subset_trans)
      with FileEntry True show ?thesis
        by (simp add: Let_def entryPath_def del: scanDirectory.simps)
    next
      case False
      with FileEntry 3(5)[OF entryPath_def nd FileEntry False] show ?thesis
        by (simp add: Let_def del: scanDirectory.simps)
    qed
  next
    case OtherEntry
    then have nd: "d_kind entry \<noteq> DirectoryEntry" and nf: "d_kind entry \<noteq> FileEntry"
      by simp_all
    with OtherEntry 3(6)[OF entryPath_def nd nf] show ?thesis
      by (simp add: Let_def del: scanDirectory.simps)
  qed
qed

lemma indexCodebase_scan:
  "indexCodebase w cfg rootDir = updateMetadata w (scanDirectory w cfg rootDir 0 emptyIndex)"
  by (simp add: indexCodebase_def)

lemma ci_files_updateMetadata: "ci_files (updateMetadata w idx) = ci_files idx"
  by (simp add: updateMetadata_def)

lemma scanDirectory_listing:
  "level \<le> indexDepth cfg \<Longrightarrow> w_readdir w dir = Some es \<Longrightarrow>
   scanDirectory w cfg dir level idx = scanEntries w cfg dir level es idx"
  by simp

lemma scanEntries_directory:
  assumes "d_kind entry = DirectoryEntry" "d_name entry \<notin> set (excludeDirs cfg)"
  shows "scanEntries w cfg dir level (entry # rest) idx
           = scanEntries w cfg dir level rest
               (scanDirectory w cfg (path_join dir (d_name entry)) (level + 1) idx)"
  using assms by (simp add: Let_def del: scanDirectory.simps)

lemma indexFile_record:
  assumes "w_readFile w p = Some content" "w_stat w p = Some mtime"
  shows "fileRecord w p content mtime \<in> set (ci_files (indexFile w p idx))"
  using assms by (simp add: indexFile_def fileRecord_def Let_def)

lemma fileRecord_parse_failure:
  "w_parse w content = None \<Longrightarrow>
   fileRecord w p content mtime =
     \<lparr>fe_path = p, fe_name = path_basename p, fe_extension = path_extname p,
      fe_size = length content, fe_lastModified = Some mtime,
      fe_functions = [], fe_classes = []\<rparr>"
  by (simp add: fileRecord_def parseCode_def newFileIndex_def)

text \<open>What every scan of a directory produces, from any starting index.\<close>

lemma file_of_listing_indexed:
  assumes "level \<le> indexDepth cfg" "w_readdir w dir = Some es" "entry \<in> set es"
    and "d_kind entry = FileEntry" "path_extname (d_name entry) \<in> set (fileExtensions cfg)"
    and "w_readFile w (path_join dir (d_name entry)) = Some content"
    and "w_stat w (path_join dir (d_name entry)) = Some mtime"
  shows "fileRecord w (path_join dir (d_name entry)) content mtime
           \<in> set (ci_files (scanDirectory w cfg dir level idx))"
proof -
  from assms(3) obtain before after where es: "es = before @ entry # after"
    by (auto dest: split_list)
  have "fileRecord w (path_join dir (d_name entry)) content mtime
      \<in> set (ci_files (indexFile w (path_join dir (d_name entry))
                          (scanEntries w cfg dir level before idx)))"
    using assms(6,7) by (rule indexFile_record)
  also have "\<dots> \<subseteq> set (ci_files (scanEntries w cfg dir level after
                 (indexFile w (path_join dir (d_name entry))
                    (scanEntries w cfg dir level before idx))))"
    by (rule scan_keeps(2))
  finally show ?thesis
    using assms(1,2,4,5)
    by (simp add: es scanEntries_append scanEntries_file del: scanEntries.simps scanDirectory.simps
          add: scanDirectory_listing)
qed

lemma subdirectory_results_kept:
  assumes "level \<le> indexDepth cfg" "w_readdir w dir = Some es" "entry \<in> set es"
    and "d_kind entry = DirectoryEntry" "d_name entry \<notin> set (excludeDirs cfg)"
    and "\<And>idx. x \<in> set (ci_files (scanDirectory w cfg (path_join dir (d_name entry)) (level + 1) idx))"
  shows "x \<in> set (ci_files (scanDirectory w cfg dir level idx))"
proof -
  from assms(3) obtain before after where es: "es = before @ entry # after"
    by (auto dest: split_list)
  have "x \<in> set (ci_files (scanDirectory w cfg (path_join dir (d_name entry)) (level + 1)
                      (scanEntries w cfg dir level before idx)))"
    by (rule assms(6))
  also have "\<dots> \<subseteq> set (ci_files (scanEntries w cfg dir level after
                 (scanDirectory w cfg (path_join dir (d_name entry)) (level + 1)
                    (scanEntries w cfg dir level before idx))))"
    by (rule scan_keeps(2))
  finally show ?thesis
    using assms(1,2,4,5)
    by (simp add: es scanEntries_append scanEntries_directory scanDirectory_listing
          del: scanEntries.simps scanDirectory.simps)
qed

lemma visited_results_kept:
  assumes "visitedDir w cfg rootDir dir level"
    and "\<And>idx. x \<in> set (ci_files (scanDirectory w cfg dir level idx))"
  shows "x \<in> set (ci_files (indexCodebase w cfg rootDir))"
  using assms
proof (induction arbitrary: x rule: visitedDir.induct)
  case atRoot
  then show ?case
    by (simp add: indexCodebase_scan ci_files_updateMetadata del: scanDirectory.simps)
next
  case (below dir level es entry)
  show ?case
  proof (rule below.IH)
    fix idx
    show "x \<in> set (ci_files (scanDirectory w cfg dir level idx))"
      using below.hyps(2-6) below.prems by (rule subdirectory_results_kept)
  qed
qed

text \<open>Where the entries of a scan come from: the starting index, or a file that was read.\<close>

lemma fe_path_indexNode: "fe_path (indexNode code fi n) = fe_path fi"
  by (cases n) (simp_all add: indexNode_def)

lemma fe_path_parseCode: "fe_path (parseCode w content fi) = fe_path fi"
proof -
  have kept: "fe_path (fold (\<lambda>(n, anc) fi. indexNode content fi n) ps fi) = fe_path fi" for ps
    by (induction ps arbitrary: fi) (auto simp: fe_path_indexNode)
  show ?thesis
    by (simp add: parseCode_def kept split: option.splits)
qed

lemma indexFile_origin:
  "fe \<in> set (ci_files (indexFile w p idx)) \<Longrightarrow> readable w idx fe"
  by (auto simp: indexFile_def readable_def Let_def fe_path_parseCode newFileIndex_def
      split: option.splits)

lemma readable_trans:
  "readable w idx' fe \<Longrightarrow> \<forall>x\<in>set (ci_files idx'). readable w idx x \<Longrightarrow> readable w idx fe"
  by (auto simp: readable_def)

lemma scan_origin:
  "fe \<in> set (ci_files (scanDirectory w cfg dir lvl idx)) \<longrightarrow> readable w idx fe"
  "fe \<in> set (ci_files (scanEntries w cfg dir lvl es idx')) \<longrightarrow> readable w idx' fe"
proof (induction w cfg dir lvl idx and w cfg dir lvl es idx' arbitrary: fe and fe
         rule: scanDirectory_scanEntries.induct)
  case (1 w cfg dirPath level idx)
  then show ?case by (auto simp: readable_def split: option.splits)
next
  case (2 w cfg dirPath level idx)
  then show ?case by (simp add: readable_def)
next
  case (3 w cfg dirPath level entry rest idx)
  define entryPath where "entryPath = path_join dirPath (d_name entry)"
  show ?case
  proof (cases "d_kind entry")
    case DirectoryEntry
    show ?thesis
    proof (cases "d_name entry \<in> set (excludeDirs cfg)")
      case True
      with DirectoryEntry 3(1)[OF entryPath_def] show ?thesis
        by (simp add: Let_def del: scanDirectory.simps)
    next
      case False
      show ?thesis
      proof
        assume "fe \<in> set (ci_files (scanEntries w cfg dirPath level (entry # rest) idx))"
        with DirectoryEntry False
        have "fe \<in> set (ci_files (scanEntries w cfg dirPath level rest
                 (scanDirectory w cfg entryPath (level + 1) idx)))"
          by (simp add: Let_def entryPath_def del: scanDirectory.simps)
        with 3(3)[OF entryPath_def DirectoryEntry False]
        have "readable w (scanDirectory w cfg entryPath (level + 1) idx) fe" by blast
        moreover have "\<forall>x\<in>set (ci_files (scanDirectory w cfg entryPath (level + 1) idx)).
                         readable w idx x"
          using 3(2)[OF entryPath_def DirectoryEntry False] by blast
        ultimately show "readable w idx fe"
          by (rule readable_trans)
      qed
    qed
  next
    case FileEntry
    then have nd: "d_kind entry \<noteq> DirectoryEntry" by simp
    show ?thesis
    proof (cases "path_extname (d_name entry) \<in> set (fileExtensions cfg)")
      case True
      show ?thesis
      proof
        assume "fe \<in> set (ci_files (scanEntries w cfg dirPath level (entry # rest) idx))"
        with FileEntry True
        have "fe \<in> set (ci_files (scanEntries w cfg dirPath level rest (indexFile w entryPath idx)))"
          by (simp add: Let_def entryPath_def del: scanDirectory.simps)
        with 3(4)[OF entryPath_def nd FileEntry True]
        have "readable w (indexFile w entryPath idx) fe" by blast
        moreover have "\<forall>x\<in>set (ci_files (indexFile w entryPath idx)). readable w idx x"
          using indexFile_origin by blast
        ultimately show "readable w idx fe"
          by (rule readable_trans)
      qed
    next
      case False
      with FileEntry 3(5)[OF entryPath_def nd FileEntry False] show ?thesis
        by (simp add: Let_def del: scanDirectory.simps)
    qed
  next
    case OtherEntry
    then have nd: "d_kind entry \<noteq> DirectoryEntry" and nf: "d_kind entry \<noteq> FileEntry"
      by simp_all
    with OtherEntry 3(6)[OF entryPath_def nd nf] show ?thesis
      by (simp add: Let_def del: scanDirectory.simps)
  qed
qed

lemma indexed_files_were_read:
  "fe \<in> set (ci_files (indexCodebase w cfg rootDir)) \<Longrightarrow> w_readFile w (fe_path fe) \<noteq> None"
  using scan_origin(1)[of fe w cfg rootDir 0 emptyIndex]
  by (simp add: indexCodebase_scan ci_files_updateMetadata readable_def emptyIndex_def
        del: scanDirectory.simps)

text \<open>
  C9. Let a directory the scan enters, at any level within the depth limit, list a file
  entry with an indexed extension. If reading that file fails, the scan of the listing
  gives the index that the listing without the entry gives, and no entry of the final
  index has the path of that file. If the file is read and stated, its record is in the
  final index, whatever happened to the entries listed before it. If moreover its content
  does not parse, that record has its metadata and empty function and class lists, and
  the entries listed after it are scanned from the state that holds it. In no case does
  the scan stop.
\<close>

theorem indexCodebase_survives_file_failure:
  assumes "visitedDir w cfg rootDir dir level" and "level \<le> indexDepth cfg"
    and "w_readdir w dir = Some (before @ entry # after)"
    and "d_kind entry = FileEntry"
    and "path_extname (d_name entry) \<in> set (fileExtensions cfg)"
  shows "(w_readFile w (path_join dir (d_name entry)) = None \<longrightarrow>
            scanEntries w cfg dir level (before @ entry # after) idx
              = scanEntries w cfg dir level (before @ after) idx
            \<and> (\<forall>fe\<in>set (ci_files (indexCodebase w cfg rootDir)).
                  fe_path fe \<noteq> path_join dir (d_name entry)))
       \<and> (w_readFile w (path_join dir (d_name entry)) = Some content
            \<and> w_stat w (path_join dir (d_name entry)) = Some mtime \<longrightarrow>
            fileRecord w (path_join dir (d_name entry)) content mtime
              \<in> set (ci_files (indexCodebase w cfg rootDir)))
       \<and> (w_readFile w (path_join dir (d_name entry)) = Some content
            \<and> w_stat w (path_join dir (d_name entry)) = Some mtime
            \<and> w_parse w content = None \<longrightarrow>
            scanEntries w cfg dir level (before @ entry # after) idx
              = scanEntries w cfg dir level after
                  ((scanEntries w cfg dir level before idx)
                     \<lparr>ci_files := ci_files (scanEntries w cfg dir level before idx) @
                        [\<lparr>fe_path = path_join dir (d_name entry),
                          fe_name = path_basename (path_join dir (d_name entry)),
                          fe_extension = path_extname (path_join dir (d_name entry)),
                          fe_size = length content, fe_lastModified = Some mtime,
                          fe_functions = [], fe_classes = []\<rparr>]\<rparr>)
            \<and> \<lparr>fe_path = path_join dir (d_name entry),
                 fe_name = path_basename (path_join dir (d_name entry)),
                 fe_extension = path_extname (path_join dir (d_name entry)),
                 fe_size = length content, fe_lastModified = Some mtime,
                 fe_functions = [], fe_classes = []\<rparr>
                \<in> set (ci_files (indexCodebase w cfg rootDir)))"
proof -
  let ?p = "path_join dir (d_name entry)"
  have mem: "entry \<in> set (before @ entry # after)" by simp
  have indexed: "fileRecord w ?p content mtime \<in> set (ci_files (indexCodebase w cfg rootDir))"
    if ok: "w_readFile w ?p = Some content" "w_stat w ?p = Some mtime"
    using assms(1)
  proof (rule visited_results_kept)
    fix idx'
    show "fileRecord w ?p content mtime \<in> set (ci_files (scanDirectory w cfg dir level idx'))"
      using assms(2,3) mem assms(4,5) ok by (rule file_of_listing_indexed)
  qed
  have unread: "scanEntries w cfg dir level (before @ entry # after) idx
              = scanEntries w cfg dir level (before @ after) idx
            \<and> (\<forall>fe\<in>set (ci_files (indexCodebase w cfg rootDir)). fe_path fe \<noteq> ?p)"
    if none: "w_readFile w ?p = None"
  proof
    show "scanEntries w cfg dir level (before @ entry # after) idx
              = scanEntries w cfg dir level (before @ after) idx"
      using assms(4,5) none
      by (simp add: scanEntries_append scanEntries_file indexFile_read_failure
            del: scanEntries.simps)
    show "\<forall>fe\<in>set (ci_files (indexCodebase w cfg rootDir)). fe_path fe \<noteq> ?p"
      using none indexed_files_were_read by metis
  qed
  have unparsed: "scanEntries w cfg dir level (before @ entry # after) idx
              = scanEntries w cfg dir level after
                  ((scanEntries w cfg dir level before idx)
                     \<lparr>ci_files := ci_files (scanEntries w cfg dir level before idx) @
                        [\<lparr>fe_path = ?p, fe_name = path_basename ?p,
                          fe_extension = path_extname ?p,
                          fe_size = length content, fe_lastModified = Some mtime,
                          fe_functions = [], fe_classes = []\<rparr>]\<rparr>)
            \<and> \<lparr>fe_path = ?p, fe_name = path_basename ?p, fe_extension = path_extname ?p,
                 fe_size = length content, fe_lastModified = Some mtime,
                 fe_functions = [], fe_classes = []\<rparr>
                \<in> set (ci_files (indexCodebase w cfg rootDir))"
    if bad: "w_readFile w ?p = Some content" "w_stat w ?p = Some mtime" "w_parse w content = None"
  proof
    show "scanEntries w cfg dir level (before @ entry # after) idx
              = scanEntries w cfg dir level after
                  ((scanEntries w cfg dir level before idx)
                     \<lparr>ci_files := ci_files (scanEntries w cfg dir level before idx) @
                        [\<lparr>fe_path = ?p, fe_name = path_basename ?p,
                          fe_extension = path_extname ?p,
                          fe_size = length content, fe_lastModified = Some mtime,
                          fe_functions = [], fe_classes = []\<rparr>]\<rparr>)"
      using assms(4,5) indexFile_parse_failure[OF bad]
      by (simp add: scanEntries_append scanEntries_file del: scanEntries.simps)
    show "\<lparr>fe_path = ?p, fe_name = path_basename ?p, fe_extension = path_extname ?p,
                 fe_size = length content, fe_lastModified = Some mtime,
                 fe_functions = [], fe_classes = []\<rparr>
                \<in> set (ci_files (indexCodebase w cfg rootDir))"
      using indexed[OF bad(1,2)] fileRecord_parse_failure[OF bad(3), of ?p mtime] by simp
  qed
  from indexed unread unparsed show ?thesis by blast
qed

lemma nested_paths:
  "path_join ''/proj'' ''sub'' = ''/proj/sub''"
  "path_join ''/proj/sub'' (d_name (fileEntry ''locked.js'')) = ''/proj/sub/locked.js''"
  "path_join ''/proj/sub'' (d_name (fileEntry ''broken.js'')) = ''/proj/sub/broken.js''"
  "path_join ''/proj/sub'' (d_name (fileEntry ''b.js'')) = ''/proj/sub/b.js''"
  "path_extname (d_name (fileEntry ''locked.js'')) = ''.js''"
  "path_extname (d_name (fileEntry ''broken.js'')) = ''.js''"
  "path_extname (d_name (fileEntry ''b.js'')) = ''.js''"
  "path_basename ''/proj/sub/broken.js'' = ''broken.js''"
  "path_extname ''/proj/sub/broken.js'' = ''.js''"
  by code_simp+

lemma nested_files:
  "w_readFile nestedWorld ''/proj/sub/locked.js'' = None"
  "w_readFile nestedWorld ''/proj/sub/broken.js'' = Some source_broken"
  "w_readFile nestedWorld ''/proj/sub/b.js'' = Some source_b"
  "w_stat nestedWorld ''/proj/sub/broken.js'' = Some ''2024-01-01T00:00:00.000Z''"
  "w_stat nestedWorld ''/proj/sub/b.js'' = Some ''2024-01-01T00:00:00.000Z''"
  "w_parse nestedWorld source_broken = None"
  by code_simp+

lemma nested_listing:
  "w_readdir nestedWorld ''/proj''
     = Some [fileEntry ''a.js'', \<lparr>d_name = ''sub'', d_kind = DirectoryEntry\<rparr>]"
  "w_readdir nestedWorld ''/proj/sub''
     = Some ([] @ fileEntry ''locked.js'' # [fileEntry ''broken.js'', fileEntry ''b.js''])"
  "w_readdir nestedWorld ''/proj/sub''
     = Some ([fileEntry ''locked.js''] @ fileEntry ''broken.js'' # [fileEntry ''b.js''])"
  "w_readdir nestedWorld ''/proj/sub''
     = Some ([fileEntry ''locked.js'', fileEntry ''broken.js''] @ fileEntry ''b.js'' # [])"
  by (simp_all add: nestedWorld_def)

lemma nested_visited: "visitedDir nestedWorld defaultIndexerConfig ''/proj'' ''/proj/sub'' 1"
proof -
  have "visitedDir nestedWorld defaultIndexerConfig ''/proj''
          (path_join ''/proj'' (d_name \<lparr>d_name = ''sub'', d_kind = DirectoryEntry\<rparr>)) (0 + 1)"
    by (rule visitedDir.below[OF visitedDir.atRoot _ nested_listing(1)])
       (simp_all add: defaultIndexerConfig_def)
  then show ?thesis by (simp add: nested_paths(1))
qed

theorem indexCodebase_survives_file_failure_witness:
  "visitedDir nestedWorld defaultIndexerConfig ''/proj'' ''/proj/sub'' 1
   \<and> w_readFile nestedWorld ''/proj/sub/locked.js'' = None
   \<and> w_parse nestedWorld source_broken = None
   \<and> ''/proj/sub/locked.js''
        \<notin> fe_path ` set (ci_files (indexCodebase nestedWorld defaultIndexerConfig ''/proj''))
   \<and> \<lparr>fe_path = ''/proj/sub/broken.js'', fe_name = ''broken.js'', fe_extension = ''.js'',
        fe_size = length source_broken, fe_lastModified = Some ''2024-01-01T00:00:00.000Z'',
        fe_functions = [], fe_classes = []\<rparr>
       \<in> set (ci_files (indexCodebase nestedWorld defaultIndexerConfig ''/proj''))
   \<and> fileRecord nestedWorld ''/proj/sub/b.js'' source_b ''2024-01-01T00:00:00.000Z''
       \<in> set (ci_files (indexCodebase nestedWorld defaultIndexerConfig ''/proj''))"
proof -
  have kind: "d_kind (fileEntry n) = FileEntry" for n
    by (simp add: fileEntry_def)
  have lvl: "1 \<le> indexDepth defaultIndexerConfig"
    by (simp add: defaultIndexerConfig_def)
  have ext: "path_extname (d_name (fileEntry ''locked.js'')) \<in> set (fileExtensions defaultIndexerConfig)"
    "path_extname (d_name (fileEntry ''broken.js'')) \<in> set (fileExtensions defaultIndexerConfig)"
    "path_extname (d_name (fileEntry ''b.js'')) \<in> set (fileExtensions defaultIndexerConfig)"
    by (simp_all add: nested_paths defaultIndexerConfig_def)
  note locked = indexCodebase_survives_file_failure[OF nested_visited lvl nested_listing(2) kind ext(1),
      unfolded nested_paths]
  note broken = indexCodebase_survives_file_failure[OF nested_visited lvl nested_listing(3) kind ext(2),
      unfolded nested_paths]
  note following = indexCodebase_survives_file_failure[OF nested_visited lvl nested_listing(4) kind ext(3),
      unfolded nested_paths]
  have absent: "\<forall>fe\<in>set (ci_files (indexCodebase nestedWorld defaultIndexerConfig ''/proj'')).
          fe_path fe \<noteq> ''/proj/sub/locked.js''"
    using locked[THEN conjunct1, THEN mp, OF nested_files(1), THEN conjunct2] .
  have img: "\<forall>fe\<in>S. fe_path fe \<noteq> p \<Longrightarrow> p \<notin> fe_path ` S"
    for S :: "file_entry set" and p
    by (auto simp del: One_nat_def)
  have unreadable: "''/proj/sub/locked.js''
        \<notin> fe_path ` set (ci_files (indexCodebase nestedWorld defaultIndexerConfig ''/proj''))"
    by (rule img) (rule absent)
  have unparsable: "\<lparr>fe_path = ''/proj/sub/broken.js'', fe_name = ''broken.js'', fe_extension = ''.js'',
        fe_size = length source_broken, fe_lastModified = Some ''2024-01-01T00:00:00.000Z'',
        fe_functions = [], fe_classes = []\<rparr>
       \<in> set (ci_files (indexCodebase nestedWorld defaultIndexerConfig ''/proj''))"
    using broken[THEN conjunct2, THEN conjunct2, THEN mp,
        OF conjI[OF nested_files(2) conjI[OF nested_files(4) nested_files(6)]], THEN conjunct2] .
  have later: "fileRecord nestedWorld ''/proj/sub/b.js'' source_b ''2024-01-01T00:00:00.000Z''
       \<in> set (ci_files (indexCodebase nestedWorld defaultIndexerConfig ''/proj''))"
    using following[THEN conjunct2, THEN conjunct1, THEN mp,
        OF conjI[OF nested_files(3) nested_files(5)]] .
  from nested_visited nested_files(1,6) unreadable unparsable later show ?thesis
    by (intro conjI)
qed

section \<open>Import edges (C2)\<close>

text \<open>
  C2. In the project of \<open>b.js\<close>, \<open>c.js\<close> and \<open>d.js\<close> all three files are on disk
  and indexed. The import of \<open>./b.js\<close> in \<open>d.js\<close> yields an \<open>imports\<close> edge. The import of
  \<open>./b\<close> in \<open>c.js\<close> yields none: every call of the existence test raises, so both probe
  loops find nothing and the resolver returns \<open>/proj/b\<close>, which is no node. With the
  synchronous existence test the same resolver returns \<open>/proj/b.js\<close>.
\<close>

theorem extensionless_import_has_no_edge:
  "edgeTriples (builtGraph [''b.js'', ''c.js'', ''d.js''])
     = [(''function:/proj/b.js:bar'', ''contains'', ''file:/proj/b.js''),
        (''file:/proj/d.js'', ''imports'', ''file:/proj/b.js'')]
   \<and> resolveImportPath (projectWorld [''b.js'', ''c.js'', ''d.js'']) defaultAnalyzerOptions
         ''./b'' ''/proj/c.js'' = Some ''/proj/b''
   \<and> resolveImportPathWith (disk_existsSync (projectWorld [''b.js'', ''c.js'', ''d.js'']))
         defaultAnalyzerOptions ''/'' ''./b'' ''/proj/c.js'' = Some ''/proj/b.js''"
  by code_simp

section \<open>Two-file scenario (C4)\<close>

text \<open>
  C4. In the project of \<open>a.js\<close> and \<open>b.js\<close> the graph has the two file nodes and the
  two function nodes, the two \<open>contains\<close> edges and the edge
  \<open>function:/proj/a.js:foo calls function:/proj/b.js:bar\<close>. It has no \<open>requires\<close> edge
  from \<open>a.js\<close> to \<open>b.js\<close>: the specifier \<open>./b\<close> resolves to \<open>/proj/b\<close>.
\<close>

theorem two_file_scenario_graph:
  "map fst (nodes (builtGraph [''a.js'', ''b.js'']))
     = [''file:/proj/a.js'', ''file:/proj/b.js'', ''function:/proj/a.js:foo'',
        ''function:/proj/b.js:bar'']
   \<and> edgeTriples (builtGraph [''a.js'', ''b.js''])
     = [(''function:/proj/a.js:foo'', ''contains'', ''file:/proj/a.js''),
        (''function:/proj/b.js:bar'', ''contains'', ''file:/proj/b.js''),
        (''function:/proj/a.js:foo'', ''calls'', ''function:/proj/b.js:bar'')]"
  by code_simp

section \<open>Mapping after initialization (C10)\<close>

text \<open>
  C10. Let the process-wide slot \<open>global.semanticAnalyzer\<close> be unset, and let
  \<open>initialize\<close> complete without an exception. Then the slot is still unset, the code
  index of the engine is set, and \<open>mapTaskToCode\<close> raises the error
  \<open>Semantic analyzer not available\<close> for every task object: \<open>initialize\<close> fills the
  analyzer of the engine, and \<open>mapTask\<close> reads the slot.
\<close>

theorem mapTaskToCode_after_initialize:
  assumes "g_semanticAnalyzer gl = None"
    and "fst (initialize nl w codebasePath (gl, eng)) = None"
  shows "fst (snd (initialize nl w codebasePath (gl, eng))) = gl
       \<and> e_codeIndex (snd (snd (initialize nl w codebasePath (gl, eng)))) \<noteq> None
       \<and> mapTaskToCode nl (snd (initialize nl w codebasePath (gl, eng))) t = Inl analyzerMissing"
proof (cases "analyzeCodebase nl (indexCodebase w (e_indexerConfig eng) codebasePath)
                (e_semanticAnalyzer eng)")
  case (Inl e)
  with assms(2) show ?thesis
    by (simp add: initialize_def Let_def)
next
  case (Inr sa)
  with assms(1) show ?thesis
    by (simp add: initialize_def Let_def mapTaskToCode_def mapTask_def)
qed

lemma initialize_example:
  "fst (initialize exampleNatural (projectWorld [''a.js'', ''b.js'']) ''/proj''
          (\<lparr>g_semanticAnalyzer = None\<rparr>, newEngine)) = None"
  by code_simp

theorem mapTaskToCode_after_initialize_witness:
  "g_semanticAnalyzer \<lparr>g_semanticAnalyzer = None\<rparr> = None
   \<and> fst (initialize exampleNatural (projectWorld [''a.js'', ''b.js'']) ''/proj''
          (\<lparr>g_semanticAnalyzer = None\<rparr>, newEngine)) = None
   \<and> mapTaskToCode exampleNatural
        (snd (initialize exampleNatural (projectWorld [''a.js'', ''b.js'']) ''/proj''
               (\<lparr>g_semanticAnalyzer = None\<rparr>, newEngine))) loginTask
       = Inl analyzerMissing"
  using mapTaskToCode_after_initialize[OF _ initialize_example, of loginTask] initialize_example
  by simp

section \<open>Dependency ranking (C3)\<close>

text \<open>
  With a graph argument that is plain data, as the engine passes it, no dependency score
  is computed.
\<close>

lemma rankResultsByDependencies_plain:
  "rankResultsByDependencies similarElements (GraphData g) t = Inr (map unranked similarElements)"
  "rankResultsByDependencies similarElements NoGraph t = Inr (map unranked similarElements)"
  by (simp_all add: rankResultsByDependencies_def)

text \<open>
  With the dependency analyzer as graph argument, the traversal returns entries
  \<open>{id, node, edge, depth}\<close>. As soon as the first result has a dependency and the task
  declares one, the containment test is called on an entry and raises.
\<close>

lemma scoreDependencies_entry:
  "scoreDependencies deps ((taskDep, DepEntry d) # rest) score
     = Inl (TypeError ''elemDep.includes is not a function'')"
  by (simp add: dependencyMatches_def)

lemma rankResultsByDependencies_entries_raise:
  assumes "orNil (t_dependencies t) = taskDep # taskDeps"
    and "getNodeDependencies g (resultKey (r_type element) (r_item element)) defaults = d # ds"
  shows "rankResultsByDependencies (element # rest) (analyzerHandle g) t
           = Inl (TypeError ''elemDep.includes is not a function'')"
  using assms
  by (simp add: rankResultsByDependencies_def analyzerHandle_def rankOne_def dependencyPairs_def
        dependencyMatches_def Let_def)

lemma login_search:
  assumes "0 < th" "th \<le> 1"
  shows "findSimilarElements exampleNatural loginAnalyzer ''login'' (thresholdOnly th) =
     [\<lparr>r_type = ''function'', r_item = snd (semFunction ''/p/a.js'' ''login'' [(''login'', 1)]),
        r_similarity = 1\<rparr>]"
proof -
  have cfg: "sa_config loginAnalyzer = defaultAnalyzerConfig"
    by (simp add: loginAnalyzer_def)
  have idx: "semanticIndex loginAnalyzer = \<lparr>sem_files = [],
       sem_functions = [semFunction ''/p/a.js'' ''login'' [(''login'', 1)],
                        semFunction ''/p/a.js'' ''render'' [(''render'', 1)]],
       sem_classes = []\<rparr>"
    by (simp add: loginAnalyzer_def)
  have qv: "queryVector exampleNatural (sa_documents loginAnalyzer) [''login''] = [(''login'', 1)]"
    by (simp add: queryVector_def averageIdf_def documentHas_def getProp_def
          objectPrototypeMembers_def loginAnalyzer_def exampleNatural_def)
  have sims:
    "calculateSimilarity (Some [(''login'', 1)]) (Some [(''login'', 1)]) = Some 1"
    "calculateSimilarity (Some [(''login'', 1)]) (Some [(''render'', 1)]) = Some 0"
    by (simp_all add: calculateSimilarity_def cosineDistance_def magnitude_def dotProduct_def
          getProp_def objectPrototypeMembers_def)
  have vec: "si_vector (snd (semFunction p n v)) = Some v" for p n v
    by (simp add: semFunction_def)
  have none: "searchIn ty t q [] = []" for ty t q
    by (simp add: searchIn_def)
  have found: "searchIn ''function'' th [(''login'', 1)]
      [semFunction ''/p/a.js'' ''login'' [(''login'', 1)],
       semFunction ''/p/a.js'' ''render'' [(''render'', 1)]]
    = [\<lparr>r_type = ''function'', r_item = snd (semFunction ''/p/a.js'' ''login'' [(''login'', 1)]),
        r_similarity = 1\<rparr>]"
    using assms by (simp add: searchIn_def case_prod_beta vec sims Let_def)
  show ?thesis
    by (simp add: none findSimilarElements_def cfg idx example_tokens qv
          thresholdOnly_def effectiveLimit_def effectiveTypes_def effectiveThreshold_def
          found[unfolded thresholdOnly_def] sortBySimilarity_def Let_def)
qed

lemma login_key:
  "resultKey ''function'' (snd (semFunction ''/p/a.js'' ''login'' v)) = ''function:/p/a.js:login''"
  by (simp add: resultKey_def semFunction_def tmpl_def)

lemma login_combined:
  "findSimilarCodeElements exampleNatural defaultMappingConfig loginAnalyzer loginTask =
     [\<lparr>r_type = ''function'', r_item = snd (semFunction ''/p/a.js'' ''login'' [(''login'', 1)]),
        r_similarity = 1, cb_weight = 1, cb_originalSimilarity = 1\<rparr>]"
proof -
  have q: "orEmpty (t_title loginTask) = ''login''" "orEmpty (t_description loginTask) = ''login''"
    "joinWords (orNil (t_keywords loginTask)) = ''login''"
    by (simp_all add: loginTask_def orEmpty_def orNil_def joinWords_def)
  have th: "mc_similarityThreshold defaultMappingConfig = 7 / 10"
    by (simp add: defaultMappingConfig_def)
  show ?thesis
    by (simp add: findSimilarCodeElements_def q th login_search combineSearchResults_def
          combineOne_def login_key sortCombined_def Let_def
          search_result.extend_def combined.fields_def)
qed

lemma login_deps:
  "map dep_id (getNodeDependencies loginGraph ''function:/p/a.js:login'' defaults) = [''file:/p/a.js'']"
  by code_simp

lemma login_task_dependencies: "orNil (t_dependencies loginTask) = [''a.js'']"
  by (simp add: loginTask_def orNil_def)

text \<open>
  C3. The dependency analyzer is the one object of the program with a
  \<open>getNodeDependencies\<close> method, and its traversal returns entries, not strings. Take the
  task \<open>login\<close> with the declared dependency \<open>a.js\<close>, the analyzer of the functions
  \<open>login\<close> and \<open>render\<close> in the process-wide slot, and the graph of the file \<open>/p/a.js\<close>
  with its function \<open>login\<close>. The search finds \<open>login\<close>, whose one-hop dependency is the
  entry of \<open>file:/p/a.js\<close>; \<open>mapTask\<close> then raises a type error in the containment test
  and returns no mapping result.
\<close>

theorem mapTask_traversal_entries_raise:
  "mapTask exampleNatural defaultMappingConfig \<lparr>g_semanticAnalyzer = Some loginAnalyzer\<rparr>
     loginTask emptyIndex (analyzerHandle loginGraph)
   = Inl (TypeError ''elemDep.includes is not a function'')"
proof -
  from login_deps obtain d where
    d: "getNodeDependencies loginGraph ''function:/p/a.js:login'' defaults = d # []"
    by (cases "getNodeDependencies loginGraph ''function:/p/a.js:login'' defaults") auto
  have "rankResultsByDependencies
          [\<lparr>r_type = ''function'',
            r_item = snd (semFunction ''/p/a.js'' ''login'' [(''login'', 1)]),
            r_similarity = 1, cb_weight = 1, cb_originalSimilarity = 1\<rparr>]
          (analyzerHandle loginGraph) loginTask
        = Inl (TypeError ''elemDep.includes is not a function'')"
    using login_task_dependencies
  proof (rule rankResultsByDependencies_entries_raise)
    show "getNodeDependencies loginGraph
            (resultKey (r_type \<lparr>r_type = ''function'',
                 r_item = snd (semFunction ''/p/a.js'' ''login'' [(''login'', 1)]),
                 r_similarity = 1, cb_weight = 1, cb_originalSimilarity = 1\<rparr>)
               (r_item \<lparr>r_type = ''function'',
                 r_item = snd (semFunction ''/p/a.js'' ''login'' [(''login'', 1)]),
                 r_similarity = 1, cb_weight = 1, cb_originalSimilarity = 1\<rparr>))
            defaults = d # []"
      by (simp add: login_key d)
  qed
  then show ?thesis
    by (simp add: mapTask_def login_combined)
qed

end
